theory Spec2Isabelle
  imports Complex_Main "HOL-Library.AList"
begin

section \<open>The heliospheric constellation of orbit\_plotter\_2D.py\<close>

text \<open>
  The module has one class, \<open>HeliosphericConstellation\<close>. Its constructor looks up the
  position of Earth and of every body of \<open>body_list\<close>, and fills a dictionary and a
  table; its method \<open>backmapping\<close> computes the backmapping angle of one body.

  Numbers. Python floats are modelled as real numbers, so rounding errors of binary64
  arithmetic are not part of the model: where the code rounds two exact values to the same
  float the model keeps them apart, so nothing below concludes a strict inequality
  between two computed angles, and an overflow to \<open>inf\<close> is not modelled. The one place
  where a float that is no real
  number arises is the division by the wind speed (numpy scalars divide by zero to
  \<open>inf\<close> or \<open>nan\<close> with a warning, they do not raise) and the \<open>np.nan\<close> that
  \<open>backmapping\<close> returns without a reference longitude. Such a value is \<open>None\<close> in the
  type \<open>pyfloat\<close>; every operation of the code on a non-finite float gives a non-finite
  float again, whichever branch a comparison takes.
\<close>

type_synonym pyfloat = "real option"

definition fdiv :: "real \<Rightarrow> real \<Rightarrow> pyfloat" where
  "fdiv x y = (if y = 0 then None else Some (x / y))"

subsection \<open>The collaborators: ephemeris provider and body catalog\<close>

datatype horizons_id = IntId int | StrId string

text \<open>A coordinate in the Carrington frame: \<open>pos.lon.value\<close>, \<open>pos.lat.value\<close> (degrees)
  and \<open>pos.radius.value\<close> (AU).\<close>

record position =
  lon :: real
  lat :: real
  radius :: real

text \<open>A row of the \<open>Body\<close> model, as far as the constructor reads it.\<close>

record body =
  body_id :: horizons_id
  name :: string
  color :: string

text \<open>\<open>get_horizons_coord(id, date, "id")\<close> followed by \<open>transform_to(...)\<close>: a coordinate,
  a \<open>ValueError\<close> (no ephemeris), or any other exception.\<close>

datatype lookup = Coord position | RaisesValueError | RaisesOther string

text \<open>The world outside the module: \<open>Body.objects.get(name=...)\<close>, which raises for a
  name it does not find (\<open>None\<close>), and the ephemeris service.\<close>

record world =
  catalog :: "string \<Rightarrow> body option"
  horizons :: "horizons_id \<Rightarrow> string \<Rightarrow> lookup"

datatype error =
    EphemerisValueError
  | EphemerisError string
  | BodyDoesNotExist string
  | IndexError nat
  | MaxOfEmpty
  | DataFrameLength

subsection \<open>backmapping\<close>

definition AU :: real where
  "AU = 149597870700 / 1000"

definition radians :: "real \<Rightarrow> real" where
  "radians x = x * (pi / 180)"

definition degrees :: "real \<Rightarrow> real" where
  "degrees x = x * (180 / pi)"

definition omega :: real where
  "omega = radians (360.0 / (25.38 * 24 * 60 * 60))"

text \<open>The argument of \<open>math.radians\<close> in \<open>omega\<close>: the rotation rate in degrees per
  second. It is a name for the statements below; \<open>degrees (omega * t)\<close> is this rate
  times \<open>t\<close>.\<close>

definition deg_per_sec :: real where
  "deg_per_sec = 360.0 / (25.38 * 24 * 60 * 60)"

text \<open>\<open>tt = dist * AU / vsw\<close>, the travel time in seconds.\<close>

definition tt :: "real \<Rightarrow> real \<Rightarrow> pyfloat" where
  "tt dist_v vsw = fdiv (dist_v * AU) vsw"

text \<open>The two wrap branches of lines 204 to 208, on a finite raw separation.\<close>

definition wrap_sep :: "real \<Rightarrow> real" where
  "wrap_sep sep0 =
     (let sep = (if sep0 > 180.0 then sep0 - 360 else sep0);
          sep = (if sep < - 180.0 then 360 - \<bar>sep\<bar> else sep)
      in sep)"

text \<open>\<open>backmapping(self, body_pos, date, reference_long, vsw)\<close> returns \<open>(sep, alpha)\<close>.\<close>

definition backmapping ::
  "position \<Rightarrow> string \<Rightarrow> real option \<Rightarrow> real \<Rightarrow> pyfloat \<times> pyfloat" where
  "backmapping body_pos date reference_long vsw =
     (let pos = body_pos;
          lon_v = lon pos;
          dist_v = radius pos;
          alpha = map_option (\<lambda>t. degrees (omega * t)) (tt dist_v vsw);
          sep = (case reference_long of
                   Some r \<Rightarrow> map_option (\<lambda>a. wrap_sep ((lon_v + a) - r)) alpha
                 | None \<Rightarrow> None)
      in (sep, alpha))"

subsection \<open>The constructor\<close>

text \<open>Lines 96 to 98, 114 to 116 and 121 to 123 of the loop body.\<close>

definition longsep_E :: "position \<Rightarrow> position \<Rightarrow> real" where
  "longsep_E pos pos_E =
     (let d = lon pos - lon pos_E in if d > 180 then d - 360.0 else d)"

definition body_footp_long :: "position \<Rightarrow> pyfloat \<Rightarrow> pyfloat" where
  "body_footp_long pos alpha =
     map_option (\<lambda>a. let f = lon pos + a in if f > 360 then f - 360 else f) alpha"

definition long_sep :: "position \<Rightarrow> real \<Rightarrow> real" where
  "long_sep pos reference_long =
     (let d = lon pos - reference_long in if d > 180 then d - 360.0 else d)"

text \<open>A value of \<open>bodies_dict\<close> is a Python list that grows by \<open>append\<close>:
  \<open>[body_id, name, color, pos, vsw, sep, sep]\<close>.\<close>

datatype item = IdItem horizons_id | StrItem string | PosItem position | NumItem pyfloat

text \<open>The local variables of the constructor that the loop changes, the calls made to the
  ephemeris service so far and the lines printed so far. The dictionary keeps its
  insertion order.\<close>

record loop_state =
  bodies_dict :: "(string \<times> item list) list"
  body_lon_list :: "real list"
  body_lat_list :: "real list"
  body_dist_list :: "real list"
  longsep_E_list :: "real list"
  latsep_E_list :: "real list"
  body_vsw_list :: "real list"
  footp_long_list :: "pyfloat list"
  longsep_list :: "real list"
  latsep_list :: "real list"
  footp_longsep_list :: "pyfloat list"
  horizons_calls :: "horizons_id list"
  stdout :: "string list"

definition dict_append :: "string \<Rightarrow> item \<Rightarrow> (string \<times> item list) list \<Rightarrow> (string \<times> item list) list" where
  "dict_append k x d = AList.map_entry k (\<lambda>e. e @ [x]) d"

definition no_ephemeris_message :: "string \<Rightarrow> string \<Rightarrow> string" where
  "no_ephemeris_message body_name date =
     ''!!! No ephemeris for target '' @ [CHR 0x22] @ body_name @ [CHR 0x22] @ '' for date '' @ date"

text \<open>Lines 93 to 130: the rest of the \<open>try\<close> block once the lookup has returned \<open>pos\<close>.
  \<open>vsw_list[i]\<close> raises \<open>IndexError\<close> out of range, which the handler does not catch.\<close>

definition resolved_body ::
  "string \<Rightarrow> position \<Rightarrow> real option \<Rightarrow> real option \<Rightarrow> real list \<Rightarrow> nat \<Rightarrow> string \<Rightarrow> position
     \<Rightarrow> loop_state \<Rightarrow> error option \<times> loop_state" where
  "resolved_body date pos_E reference_long reference_lat vsw_list i body_name pos s =
     (let s = s\<lparr>bodies_dict := dict_append body_name (PosItem pos) (bodies_dict s)\<rparr>
      in if i \<ge> length vsw_list then (Some (IndexError i), s)
      else
        let vsw = vsw_list ! i;
            s = s\<lparr>bodies_dict := dict_append body_name (NumItem (Some vsw)) (bodies_dict s)\<rparr>;
            s = s\<lparr>body_lon_list := body_lon_list s @ [lon pos],
                   body_lat_list := body_lat_list s @ [lat pos],
                   body_dist_list := body_dist_list s @ [radius pos],
                   longsep_E_list := longsep_E_list s @ [longsep_E pos pos_E],
                   latsep_E_list := latsep_E_list s @ [lat pos - lat pos_E],
                   body_vsw_list := body_vsw_list s @ [vsw]\<rparr>;
            (sep, alpha) = backmapping pos date reference_long vsw;
            s = s\<lparr>bodies_dict := dict_append body_name (NumItem sep) (bodies_dict s)\<rparr>;
            s = s\<lparr>footp_long_list := footp_long_list s @ [body_footp_long pos alpha]\<rparr>;
            s = (case reference_long of
                   Some r \<Rightarrow>
                     s\<lparr>bodies_dict := dict_append body_name (NumItem sep) (bodies_dict s),
                        longsep_list := longsep_list s @ [long_sep pos r],
                        footp_longsep_list := footp_longsep_list s @ [sep]\<rparr>
                 | None \<Rightarrow> s);
            s = (case reference_lat of
                   Some r \<Rightarrow> s\<lparr>latsep_list := latsep_list s @ [lat pos - r]\<rparr>
                 | None \<Rightarrow> s)
        in (None, s))"

text \<open>Lines 83 to 139: one pass of the loop for the body at index \<open>i\<close>. The result is the
  exception that leaves the loop, if any, and the state reached.\<close>

definition iteration ::
  "world \<Rightarrow> string \<Rightarrow> position \<Rightarrow> real option \<Rightarrow> real option \<Rightarrow> real list \<Rightarrow> nat \<Rightarrow> string
     \<Rightarrow> loop_state \<Rightarrow> error option \<times> loop_state" where
  "iteration w date pos_E reference_long reference_lat vsw_list i body_name s =
     (case catalog w body_name of
        None \<Rightarrow> (Some (BodyDoesNotExist body_name), s)
      | Some b \<Rightarrow>
          let s = s\<lparr>bodies_dict :=
                       AList.update body_name [IdItem (body_id b), StrItem (name b), StrItem (color b)]
                         (bodies_dict s)\<rparr>;
              s = s\<lparr>horizons_calls := horizons_calls s @ [body_id b]\<rparr>
          in case horizons w (body_id b) date of
               Coord pos \<Rightarrow>
                 resolved_body date pos_E reference_long reference_lat vsw_list i body_name pos s
             | RaisesValueError \<Rightarrow>
                 (None, s\<lparr>stdout := stdout s @ ['''', no_ephemeris_message body_name date],
                          bodies_dict := AList.delete body_name (bodies_dict s)\<rparr>)
             | RaisesOther e \<Rightarrow> (Some (EphemerisError e), s))"

text \<open>\<open>for i, body_name in enumerate(body_list)\<close>, from index \<open>i\<close> on.\<close>

fun for_bodies ::
  "world \<Rightarrow> string \<Rightarrow> position \<Rightarrow> real option \<Rightarrow> real option \<Rightarrow> real list \<Rightarrow> nat \<Rightarrow> string list
     \<Rightarrow> loop_state \<Rightarrow> error option \<times> loop_state" where
  "for_bodies w date pos_E reference_long reference_lat vsw_list i [] s = (None, s)"
| "for_bodies w date pos_E reference_long reference_lat vsw_list i (body_name # rest) s =
     (case iteration w date pos_E reference_long reference_lat vsw_list i body_name s of
        (Some e, s') \<Rightarrow> (Some e, s')
      | (None, s') \<Rightarrow>
          for_bodies w date pos_E reference_long reference_lat vsw_list (Suc i) rest s')"

text \<open>\<open>np.max\<close> of a list raises \<open>ValueError\<close> on the empty list.\<close>

fun np_max :: "real list \<Rightarrow> error + real" where
  "np_max [] = Inl MaxOfEmpty"
| "np_max (x # xs) = Inr (fold max xs x)"

text \<open>\<open>np.around\<close> rounds to the nearest integer, halves to the even one; with a number of
  decimals it scales first. The model rounds the exact product, numpy the binary64
  product, which can lie on the other side of a half; no statement below is about a
  rounded value.\<close>

definition rint :: "real \<Rightarrow> real" where
  "rint x =
     (let f = \<lfloor>x\<rfloor>; d = x - of_int f
      in if d < 1 / 2 then of_int f
         else if d > 1 / 2 then of_int f + 1
         else if even f then of_int f else of_int f + 1)"

definition around :: "nat \<Rightarrow> real list \<Rightarrow> real list" where
  "around decimals xs = map (\<lambda>x. rint (x * 10 ^ decimals) / 10 ^ decimals) xs"

type_synonym row = "string \<times> real \<times> real \<times> real \<times> real \<times> real"

text \<open>\<open>pd.DataFrame\<close> of a dictionary of columns raises \<open>ValueError\<close> unless all columns
  have the same length.\<close>

definition DataFrame ::
  "string list \<Rightarrow> real list \<Rightarrow> real list \<Rightarrow> real list \<Rightarrow> real list \<Rightarrow> real list \<Rightarrow> error + row list" where
  "DataFrame bodies lons lats dists longseps latseps =
     (if length lons = length bodies \<and> length lats = length bodies \<and> length dists = length bodies
         \<and> length longseps = length bodies \<and> length latseps = length bodies
      then Inr (zip bodies (zip lons (zip lats (zip dists (zip longseps latseps)))))
      else Inl DataFrameLength)"

text \<open>The attributes of the constructed object.\<close>

record constellation =
  self_date :: string
  self_reference_long :: "real option"
  self_reference_lat :: "real option"
  self_pos_E :: position
  self_body_dict :: "(string \<times> item list) list"
  self_max_dist :: real
  self_coord_table :: "row list"

text \<open>What a call of the constructor does: the calls to the ephemeris service in order,
  the lines printed, and the object or the exception raised.\<close>

record run =
  calls :: "horizons_id list"
  printed :: "string list"
  result :: "error + constellation"

definition empty_state :: loop_state where
  "empty_state =
     \<lparr>bodies_dict = [], body_lon_list = [], body_lat_list = [], body_dist_list = [],
      longsep_E_list = [], latsep_E_list = [], body_vsw_list = [], footp_long_list = [],
      longsep_list = [], latsep_list = [], footp_longsep_list = [],
      horizons_calls = [IntId 399], stdout = []\<rparr>"

text \<open>Lines 141 to 154, after the loop.\<close>

definition finish ::
  "string \<Rightarrow> position \<Rightarrow> real option \<Rightarrow> real option \<Rightarrow> loop_state \<Rightarrow> error + constellation" where
  "finish date pos_E reference_long reference_lat s =
     (case np_max (body_dist_list s) of
        Inl e \<Rightarrow> Inl e
      | Inr m \<Rightarrow>
          (case DataFrame (map fst (bodies_dict s)) (around 0 (body_lon_list s))
                  (around 0 (body_lat_list s)) (around 2 (body_dist_list s))
                  (around 0 (longsep_E_list s)) (around 0 (latsep_E_list s)) of
             Inl e \<Rightarrow> Inl e
           | Inr table \<Rightarrow>
               Inr \<lparr>self_date = date, self_reference_long = reference_long,
                    self_reference_lat = reference_lat, self_pos_E = pos_E,
                    self_body_dict = bodies_dict s, self_max_dist = m,
                    self_coord_table = table\<rparr>))"

text \<open>Lines 67 and 68: \<open>np.zeros(len(body_list)) + 400\<close> for an empty \<open>vsw_list\<close>.\<close>

definition default_vsw_list :: "string list \<Rightarrow> real list \<Rightarrow> real list" where
  "default_vsw_list body_list vsw_list =
     (if length vsw_list = 0 then replicate (length body_list) 400 else vsw_list)"

text \<open>\<open>HeliosphericConstellation(date, body_list, vsw_list, reference_long, reference_lat)\<close>.\<close>

definition init ::
  "world \<Rightarrow> string \<Rightarrow> string list \<Rightarrow> real list \<Rightarrow> real option \<Rightarrow> real option \<Rightarrow> run" where
  "init w date body_list vsw_list reference_long reference_lat =
     (case horizons w (IntId 399) date of
        RaisesValueError \<Rightarrow>
          \<lparr>calls = [IntId 399], printed = [], result = Inl EphemerisValueError\<rparr>
      | RaisesOther e \<Rightarrow>
          \<lparr>calls = [IntId 399], printed = [], result = Inl (EphemerisError e)\<rparr>
      | Coord pos_E \<Rightarrow>
          let vsw_list = default_vsw_list body_list vsw_list
          in case for_bodies w date pos_E reference_long reference_lat vsw_list 0 body_list
                    empty_state of
               (Some e, s) \<Rightarrow>
                 \<lparr>calls = horizons_calls s, printed = stdout s, result = Inl e\<rparr>
             | (None, s) \<Rightarrow>
                 \<lparr>calls = horizons_calls s, printed = stdout s,
                  result = finish date pos_E reference_long reference_lat s\<rparr>)"


subsection \<open>Names for the statements about the loop\<close>

text \<open>The coordinate that the loop gets for a name, if the catalog knows the name and the
  ephemeris service returns one; whether the pass for the body at index \<open>i\<close> ends without
  an exception that leaves the loop (with \<open>n\<close> wind speeds given); the value that the
  dictionary holds for a resolved body after its pass; and the lines printed for the
  bodies without ephemeris.\<close>

definition coord_of :: "world \<Rightarrow> string \<Rightarrow> string \<Rightarrow> position option" where
  "coord_of w date m =
     (case catalog w m of
        None \<Rightarrow> None
      | Some b \<Rightarrow> (case horizons w (body_id b) date of Coord p \<Rightarrow> Some p | _ \<Rightarrow> None))"

definition passes :: "world \<Rightarrow> string \<Rightarrow> nat \<Rightarrow> nat \<Rightarrow> string \<Rightarrow> bool" where
  "passes w date n i m =
     (case catalog w m of
        None \<Rightarrow> False
      | Some b \<Rightarrow>
          (case horizons w (body_id b) date of
             Coord p \<Rightarrow> i < n
           | RaisesValueError \<Rightarrow> True
           | RaisesOther e \<Rightarrow> False))"

fun passes_all :: "world \<Rightarrow> string \<Rightarrow> nat \<Rightarrow> nat \<Rightarrow> string list \<Rightarrow> bool" where
  "passes_all w date n i [] = True"
| "passes_all w date n i (m # ms) = (passes w date n i m \<and> passes_all w date n (Suc i) ms)"

definition full_entry :: "body \<Rightarrow> position \<Rightarrow> real \<Rightarrow> pyfloat \<Rightarrow> real option \<Rightarrow> item list" where
  "full_entry b p vsw sep reference_long =
     [IdItem (body_id b), StrItem (name b), StrItem (color b), PosItem p, NumItem (Some vsw), NumItem sep]
     @ (case reference_long of Some r \<Rightarrow> [NumItem sep] | None \<Rightarrow> [])"

definition diagnostics :: "world \<Rightarrow> string \<Rightarrow> string list \<Rightarrow> string list" where
  "diagnostics w date ms =
     concat (map (\<lambda>m. if coord_of w date m = None then ['''', no_ephemeris_message m date] else []) ms)"

subsection \<open>An example world\<close>

text \<open>The ephemeris service of the example answers for one date and raises \<open>ValueError\<close>
  for any other date string. At that date Earth, Mars and Venus have coordinates; the
  probe has no ephemeris; the lookup of the comet fails in another way. No other name is
  in the catalog.\<close>

definition example_world :: world where
  "example_world =
     \<lparr>catalog = (\<lambda>m.
        if m = ''Mars'' then Some \<lparr>body_id = IntId 499, name = ''Mars'', color = ''red''\<rparr>
        else if m = ''Venus'' then Some \<lparr>body_id = IntId 299, name = ''Venus'', color = ''orange''\<rparr>
        else if m = ''Probe'' then Some \<lparr>body_id = IntId (- 96), name = ''Probe'', color = ''purple''\<rparr>
        else if m = ''Comet'' then Some \<lparr>body_id = StrId ''67P'', name = ''Comet'', color = ''grey''\<rparr>
        else None),
      horizons = (\<lambda>i d.
        if d \<noteq> ''2020-03-22 12:30'' then RaisesValueError
        else if i = IntId 399 then Coord \<lparr>lon = 350, lat = 0, radius = 1\<rparr>
        else if i = IntId 499 then Coord \<lparr>lon = 10, lat = 2, radius = 3 / 2\<rparr>
        else if i = IntId 299 then Coord \<lparr>lon = 120, lat = - 1, radius = 7 / 10\<rparr>
        else if i = IntId (- 96) then RaisesValueError
        else RaisesOther ''ambiguous target'')\<rparr>"

section \<open>The backmapping angle\<close>

lemma deg_per_sec_pos: "0 < deg_per_sec"
  by (simp add: deg_per_sec_def)

lemma AU_pos: "0 < AU"
  by (simp add: AU_def)

lemma degrees_omega [code_unfold]: "degrees (omega * t) = deg_per_sec * t"
  by (simp add: degrees_def omega_def radians_def deg_per_sec_def)

lemma backmapping_alpha:
  "vsw \<noteq> 0 \<Longrightarrow>
   snd (backmapping body_pos date reference_long vsw)
     = Some (deg_per_sec * (radius body_pos * AU / vsw))"
  by (simp add: backmapping_def tt_def fdiv_def degrees_omega Let_def)

lemma backmapping_sep:
  "vsw \<noteq> 0 \<Longrightarrow>
   fst (backmapping body_pos date (Some r) vsw)
     = Some (wrap_sep (lon body_pos + deg_per_sec * (radius body_pos * AU / vsw) - r))"
  by (simp add: backmapping_def tt_def fdiv_def degrees_omega Let_def)

text \<open>
  C10: the result of \<open>backmapping\<close> does not depend on its \<open>date\<close> argument: two calls
  that differ only in the date return the same pair \<open>(sep, alpha)\<close>.
\<close>

theorem backmapping_ignores_date:
  "backmapping body_pos date1 reference_long vsw = backmapping body_pos date2 reference_long vsw"
  by (simp add: backmapping_def)

text \<open>
  C2, as stated, fails: at 1 AU and 400 km/s the angle is not within one degree of 9.85.
\<close>

theorem alpha_1AU_400_counterexample:
  "snd (backmapping \<lparr>lon = 0, lat = 0, radius = 1\<rparr> ''2020-03-22 12:30'' None 400) \<noteq> None
   \<and> \<not> \<bar>the (snd (backmapping \<lparr>lon = 0, lat = 0, radius = 1\<rparr> ''2020-03-22 12:30'' None 400)) - 9.85\<bar> \<le> 1"
  by (simp add: backmapping_alpha AU_def deg_per_sec_def)

text \<open>
  C2, amended: for a body at 1 AU and a wind speed of 400 km/s the travel time is
  \<open>AU / 400\<close>, about 374,000 s, and the angle \<open>alpha = degrees (omega * tt)\<close> that
  \<open>backmapping\<close> returns is about 61.4 degrees.
\<close>

theorem alpha_1AU_400:
  "tt 1 400 = Some (AU / 400) \<and> \<bar>AU / 400 - 374000\<bar> < 10
   \<and> snd (backmapping \<lparr>lon = l, lat = b, radius = 1\<rparr> date reference_long 400)
       = Some (degrees (omega * (AU / 400)))
   \<and> \<bar>degrees (omega * (AU / 400)) - 61.4\<bar> < 0.01"
proof -
  have travel: "tt 1 400 = Some (AU / 400)"
    by (simp add: tt_def fdiv_def)
  have seconds: "\<bar>AU / 400 - 374000\<bar> < 10"
    by (simp add: AU_def)
  have angle: "snd (backmapping \<lparr>lon = l, lat = b, radius = 1\<rparr> date reference_long 400)
       = Some (degrees (omega * (AU / 400)))"
    by (simp add: backmapping_def travel Let_def)
  have "degrees (omega * (AU / 400)) = deg_per_sec * (AU / 400)"
    by (rule degrees_omega)
  then have "\<bar>degrees (omega * (AU / 400)) - 61.4\<bar> < 0.01"
    by (simp add: deg_per_sec_def AU_def)
  with travel seconds angle show ?thesis
    by blast
qed

text \<open>
  C8, as stated, fails for a position at radial distance 0: the angle is 0 at every wind
  speed, so it does not decrease from 300 km/s to 400 km/s.
\<close>

theorem alpha_monotone_counterexample:
  "\<not> the (snd (backmapping \<lparr>lon = 0, lat = 0, radius = 0\<rparr> ''2020-03-22 12:30'' None 300))
       > the (snd (backmapping \<lparr>lon = 0, lat = 0, radius = 0\<rparr> ''2020-03-22 12:30'' None 400))"
  by (simp add: backmapping_alpha)

text \<open>
  C8, amended: \<open>alpha\<close> is monotone, not strictly so. At a fixed position of radial
  distance at least 0, \<open>alpha\<close> at the greater of two positive wind speeds is at most
  \<open>alpha\<close> at the smaller; at a fixed positive wind speed, \<open>alpha\<close> at the greater of two
  radial distances is at least \<open>alpha\<close> at the smaller. (Over the reals of this model the
  inequalities are strict off the origin; the floats of the code round, and neighbouring
  inputs can give equal angles, so only the inequalities with equality are stated.)
\<close>

theorem alpha_monotone:
  assumes "0 < v1" and "v1 < v2" and "0 \<le> radius p"
    and "0 < v" and "radius p1 < radius p2"
  shows "(\<exists>a1 a2. snd (backmapping p date reference_long v1) = Some a1
            \<and> snd (backmapping p date reference_long v2) = Some a2 \<and> a2 \<le> a1)
       \<and> (\<exists>a1 a2. snd (backmapping p1 date reference_long v) = Some a1
            \<and> snd (backmapping p2 date reference_long v) = Some a2 \<and> a1 \<le> a2)"
proof -
  have "0 \<le> radius p * AU"
    using assms(3) AU_pos by simp
  then have "radius p * AU / v2 \<le> radius p * AU / v1"
    using assms(1,2) by (intro divide_left_mono) simp_all
  then have speed: "deg_per_sec * (radius p * AU / v2) \<le> deg_per_sec * (radius p * AU / v1)"
    using deg_per_sec_pos by (intro mult_left_mono) simp_all
  have "radius p1 * AU / v \<le> radius p2 * AU / v"
    using assms(4,5) AU_pos by (intro divide_right_mono mult_right_mono) simp_all
  then have distance: "deg_per_sec * (radius p1 * AU / v) \<le> deg_per_sec * (radius p2 * AU / v)"
    using deg_per_sec_pos by (intro mult_left_mono) simp_all
  have nz: "v1 \<noteq> 0" "v2 \<noteq> 0" "v \<noteq> 0"
    using assms by auto
  show ?thesis
    unfolding backmapping_alpha [OF nz(1)] backmapping_alpha [OF nz(2)] backmapping_alpha [OF nz(3)]
    using speed distance by blast
qed

theorem alpha_monotone_witness:
  "(0::real) < 300 \<and> (300::real) < 400 \<and> 0 \<le> radius \<lparr>lon = 10, lat = 0, radius = 0\<rparr>
   \<and> radius \<lparr>lon = 10, lat = 0, radius = 1\<rparr> < radius \<lparr>lon = 10, lat = 0, radius = 2\<rparr>
   \<and> (\<exists>a1 a2. snd (backmapping \<lparr>lon = 10, lat = 0, radius = 0\<rparr> ''2020-03-22 12:30'' None 300) = Some a1
            \<and> snd (backmapping \<lparr>lon = 10, lat = 0, radius = 0\<rparr> ''2020-03-22 12:30'' None 400) = Some a2 \<and> a2 \<le> a1)
   \<and> (\<exists>a1 a2. snd (backmapping \<lparr>lon = 10, lat = 0, radius = 1\<rparr> ''2020-03-22 12:30'' None 300) = Some a1
            \<and> snd (backmapping \<lparr>lon = 10, lat = 0, radius = 2\<rparr> ''2020-03-22 12:30'' None 300) = Some a2 \<and> a1 \<le> a2)"
  using alpha_monotone [of 300 400 "\<lparr>lon = 10, lat = 0, radius = 0\<rparr>" 300
      "\<lparr>lon = 10, lat = 0, radius = 1\<rparr>" "\<lparr>lon = 10, lat = 0, radius = 2\<rparr>" "''2020-03-22 12:30''" None]
  by simp

section \<open>Wrapping of longitudes\<close>

lemma resolved_body_footp:
  "i < length vsw_list \<Longrightarrow>
   footp_long_list (snd (resolved_body date pos_E reference_long reference_lat vsw_list i body_name pos s))
     = footp_long_list s
       @ [body_footp_long pos (snd (backmapping pos date reference_long (vsw_list ! i)))]"
  by (simp add: resolved_body_def Let_def split: prod.splits option.splits)

lemma resolved_body_longsep_E:
  "i < length vsw_list \<Longrightarrow>
   longsep_E_list (snd (resolved_body date pos_E reference_long reference_lat vsw_list i body_name pos s))
     = longsep_E_list s @ [longsep_E pos pos_E]"
  by (simp add: resolved_body_def Let_def split: prod.splits option.splits)

lemma resolved_body_longsep:
  "i < length vsw_list \<Longrightarrow>
   longsep_list (snd (resolved_body date pos_E (Some r) reference_lat vsw_list i body_name pos s))
     = longsep_list s @ [long_sep pos r]"
  by (simp add: resolved_body_def Let_def split: prod.splits option.splits)

lemma resolved_body_footp_longsep:
  "i < length vsw_list \<Longrightarrow>
   footp_longsep_list (snd (resolved_body date pos_E (Some r) reference_lat vsw_list i body_name pos s))
     = footp_longsep_list s @ [fst (backmapping pos date (Some r) (vsw_list ! i))]"
  by (simp add: resolved_body_def Let_def split: prod.splits option.splits)

lemma wrap_sep_range:
  "- 540 < x \<Longrightarrow> x \<le> 540 \<Longrightarrow> x \<noteq> - 180 \<Longrightarrow>
   - 180 < wrap_sep x \<and> wrap_sep x \<le> 180
   \<and> wrap_sep x = (if x > 180 then x - 360 else if x < - 180 then x + 360 else x)"
  by (auto simp add: wrap_sep_def Let_def)

text \<open>
  C6: the footpoint longitude that the loop stores is meant to be \<open>lon + alpha\<close> wrapped
  into [0,360), and lines 114 to 116 miss it. For a body at longitude 200 and 10 AU with
  400 km/s the loop stores \<open>lon + alpha - 360\<close>, about 454, which is not below 360; and a
  sum of exactly 360 is stored as 360.
\<close>

theorem footpoint_beyond_one_turn:
  "footp_long_list (snd (resolved_body ''2020-03-22 12:30'' \<lparr>lon = 100, lat = 0, radius = 1\<rparr>
        None None [400] 0 ''Saturn'' \<lparr>lon = 200, lat = 0, radius = 10\<rparr> empty_state))
     = [Some (200 + deg_per_sec * (10 * AU / 400) - 360)]
   \<and> 453 < 200 + deg_per_sec * (10 * AU / 400) - 360
   \<and> \<not> 200 + deg_per_sec * (10 * AU / 400) - 360 < 360
   \<and> body_footp_long \<lparr>lon = 300, lat = 0, radius = 1\<rparr> (Some 60) = Some 360"
  by (simp add: resolved_body_footp backmapping_alpha body_footp_long_def empty_state_def
      deg_per_sec_def AU_def)

text \<open>
  C1: the separations are meant to lie in (-180,180] by one rule at every site, and the two
  sites of the constructor (lines 96 to 98 and 121 to 123) miss the branch for a difference
  below -180 that \<open>backmapping\<close> has. With Earth at longitude 350 and a body at longitude
  10 the loop stores an Earth-relative separation of -340, and a separation of -340 from a
  reference longitude of 350, where the wrap of \<open>backmapping\<close> gives 20 for the same
  difference.
\<close>

theorem separation_below_minus_180:
  "longsep_E \<lparr>lon = 10, lat = 2, radius = 3 / 2\<rparr> \<lparr>lon = 350, lat = 0, radius = 1\<rparr> = - 340
   \<and> long_sep \<lparr>lon = 10, lat = 2, radius = 3 / 2\<rparr> 350 = - 340
   \<and> wrap_sep (10 - 350) = 20
   \<and> longsep_E_list (snd (for_bodies example_world ''2020-03-22 12:30''
         \<lparr>lon = 350, lat = 0, radius = 1\<rparr> (Some 350) None [400] 0 [''Mars''] empty_state))
       = [- 340]
   \<and> longsep_list (snd (for_bodies example_world ''2020-03-22 12:30''
         \<lparr>lon = 350, lat = 0, radius = 1\<rparr> (Some 350) None [400] 0 [''Mars''] empty_state))
       = [- 340]"
  by (simp add: longsep_E_def long_sep_def wrap_sep_def iteration_def resolved_body_def
      example_world_def empty_state_def Let_def split: prod.splits)

section \<open>The loop over the bodies\<close>

lemma dict_append_update:
  "dict_append k x (AList.update k v d) = AList.update k (v @ [x]) d"
  by (induction d) (auto simp add: dict_append_def)

lemma iteration_unknown:
  "catalog w m = None \<Longrightarrow>
   iteration w date pos_E rl rt vsw i m s = (Some (BodyDoesNotExist m), s)"
  by (simp add: iteration_def)

lemma iteration_other:
  "catalog w m = Some b \<Longrightarrow> horizons w (body_id b) date = RaisesOther e \<Longrightarrow>
   fst (iteration w date pos_E rl rt vsw i m s) = Some (EphemerisError e)
   \<and> horizons_calls (snd (iteration w date pos_E rl rt vsw i m s)) = horizons_calls s @ [body_id b]
   \<and> stdout (snd (iteration w date pos_E rl rt vsw i m s)) = stdout s"
  by (simp add: iteration_def Let_def)

lemma iteration_no_ephemeris:
  "catalog w m = Some b \<Longrightarrow> horizons w (body_id b) date = RaisesValueError \<Longrightarrow>
   iteration w date pos_E rl rt vsw i m s
     = (None, s\<lparr>bodies_dict := AList.delete m (bodies_dict s),
                 horizons_calls := horizons_calls s @ [body_id b],
                 stdout := stdout s @ ['''', no_ephemeris_message m date]\<rparr>)"
  by (simp add: iteration_def Let_def AList.delete_update_same)

lemma iteration_coord:
  "catalog w m = Some b \<Longrightarrow> horizons w (body_id b) date = Coord p \<Longrightarrow> i < length vsw \<Longrightarrow>
   iteration w date pos_E rl rt vsw i m s
     = (None, s\<lparr>bodies_dict :=
                   AList.update m (full_entry b p (vsw ! i) (fst (backmapping p date rl (vsw ! i))) rl)
                     (bodies_dict s),
                 body_lon_list := body_lon_list s @ [lon p],
                 body_lat_list := body_lat_list s @ [lat p],
                 body_dist_list := body_dist_list s @ [radius p],
                 longsep_E_list := longsep_E_list s @ [longsep_E p pos_E],
                 latsep_E_list := latsep_E_list s @ [lat p - lat pos_E],
                 body_vsw_list := body_vsw_list s @ [vsw ! i],
                 footp_long_list := footp_long_list s
                    @ [body_footp_long p (snd (backmapping p date rl (vsw ! i)))],
                 longsep_list := longsep_list s @ (case rl of Some r \<Rightarrow> [long_sep p r] | None \<Rightarrow> []),
                 latsep_list := latsep_list s @ (case rt of Some r \<Rightarrow> [lat p - r] | None \<Rightarrow> []),
                 footp_longsep_list := footp_longsep_list s
                    @ (case rl of Some r \<Rightarrow> [fst (backmapping p date rl (vsw ! i))] | None \<Rightarrow> []),
                 horizons_calls := horizons_calls s @ [body_id b]\<rparr>)"
  by (cases rl; cases rt)
    (simp_all add: iteration_def resolved_body_def Let_def dict_append_update full_entry_def
      split: prod.splits)

lemma iteration_index:
  "catalog w m = Some b \<Longrightarrow> horizons w (body_id b) date = Coord p \<Longrightarrow> length vsw \<le> i \<Longrightarrow>
   fst (iteration w date pos_E rl rt vsw i m s) = Some (IndexError i)
   \<and> horizons_calls (snd (iteration w date pos_E rl rt vsw i m s)) = horizons_calls s @ [body_id b]
   \<and> stdout (snd (iteration w date pos_E rl rt vsw i m s)) = stdout s"
  by (simp add: iteration_def resolved_body_def Let_def)

lemma passes_cases:
  assumes "passes w date n i m"
  obtains (no_ephemeris) b where "catalog w m = Some b" "horizons w (body_id b) date = RaisesValueError"
      "coord_of w date m = None"
    | (coord) b p where "catalog w m = Some b" "horizons w (body_id b) date = Coord p" "i < n"
      "coord_of w date m = Some p"
  using assms by (auto simp add: passes_def coord_of_def split: option.splits lookup.splits)

lemma for_bodies_append:
  "for_bodies w date pos_E rl rt vsw i (xs @ ys) s =
     (case for_bodies w date pos_E rl rt vsw i xs s of
        (Some e, s') \<Rightarrow> (Some e, s')
      | (None, s') \<Rightarrow> for_bodies w date pos_E rl rt vsw (i + length xs) ys s')"
  by (induction xs arbitrary: i s) (auto split: prod.splits option.splits)

lemma for_bodies_passes:
  assumes "passes_all w date (length vsw) i ms"
  shows "fst (for_bodies w date pos_E rl rt vsw i ms s) = None"
  using assms
proof (induction ms arbitrary: i s)
  case Nil
  then show ?case by simp
next
  case (Cons m ms)
  then have "passes w date (length vsw) i m" and rest: "passes_all w date (length vsw) (Suc i) ms"
    by simp_all
  then show ?case
  proof (cases rule: passes_cases)
    case (no_ephemeris b)
    then show ?thesis
      using Cons.IH [OF rest] by (simp add: iteration_no_ephemeris)
  next
    case (coord b p)
    then show ?thesis
      using Cons.IH [OF rest] by (simp add: iteration_coord)
  qed
qed

lemma for_bodies_dists:
  assumes "passes_all w date (length vsw) i ms"
  shows "body_dist_list (snd (for_bodies w date pos_E rl rt vsw i ms s))
           = body_dist_list s @ map radius (List.map_filter (coord_of w date) ms)"
  using assms
proof (induction ms arbitrary: i s)
  case Nil
  then show ?case by (simp add: List.map_filter_simps)
next
  case (Cons m ms)
  then have "passes w date (length vsw) i m" and rest: "passes_all w date (length vsw) (Suc i) ms"
    by simp_all
  then show ?case
  proof (cases rule: passes_cases)
    case (no_ephemeris b)
    then show ?thesis
      using Cons.IH [OF rest] by (simp add: iteration_no_ephemeris List.map_filter_simps)
  next
    case (coord b p)
    then show ?thesis
      using Cons.IH [OF rest] by (simp add: iteration_coord List.map_filter_simps)
  qed
qed

lemma for_bodies_lengths:
  assumes "passes_all w date (length vsw) i ms"
  shows "length (body_lon_list (snd (for_bodies w date pos_E rl rt vsw i ms s)))
           = length (body_lon_list s) + length (List.map_filter (coord_of w date) ms)
       \<and> length (body_lat_list (snd (for_bodies w date pos_E rl rt vsw i ms s)))
           = length (body_lat_list s) + length (List.map_filter (coord_of w date) ms)
       \<and> length (longsep_E_list (snd (for_bodies w date pos_E rl rt vsw i ms s)))
           = length (longsep_E_list s) + length (List.map_filter (coord_of w date) ms)
       \<and> length (latsep_E_list (snd (for_bodies w date pos_E rl rt vsw i ms s)))
           = length (latsep_E_list s) + length (List.map_filter (coord_of w date) ms)"
  using assms
proof (induction ms arbitrary: i s)
  case Nil
  then show ?case by (simp add: List.map_filter_simps)
next
  case (Cons m ms)
  then have "passes w date (length vsw) i m" and rest: "passes_all w date (length vsw) (Suc i) ms"
    by simp_all
  then show ?case
  proof (cases rule: passes_cases)
    case (no_ephemeris b)
    then show ?thesis
      using Cons.IH [OF rest] by (simp add: iteration_no_ephemeris List.map_filter_simps)
  next
    case (coord b p)
    then show ?thesis
      using Cons.IH [OF rest] by (simp add: iteration_coord List.map_filter_simps)
  qed
qed

lemma for_bodies_effects:
  assumes "passes_all w date (length vsw) i ms"
  shows "horizons_calls (snd (for_bodies w date pos_E rl rt vsw i ms s))
           = horizons_calls s @ map (\<lambda>m. body_id (the (catalog w m))) ms
       \<and> stdout (snd (for_bodies w date pos_E rl rt vsw i ms s))
           = stdout s @ diagnostics w date ms"
  using assms
proof (induction ms arbitrary: i s)
  case Nil
  then show ?case by (simp add: diagnostics_def)
next
  case (Cons m ms)
  then have "passes w date (length vsw) i m" and rest: "passes_all w date (length vsw) (Suc i) ms"
    by simp_all
  then show ?case
  proof (cases rule: passes_cases)
    case (no_ephemeris b)
    then show ?thesis
      using Cons.IH [OF rest] by (simp add: iteration_no_ephemeris diagnostics_def)
  next
    case (coord b p)
    then show ?thesis
      using Cons.IH [OF rest] by (simp add: iteration_coord diagnostics_def)
  qed
qed

lemma for_bodies_keys:
  assumes "passes_all w date (length vsw) i ms"
    and "distinct ms" and "set ms \<inter> fst ` set (bodies_dict s) = {}"
  shows "map fst (bodies_dict (snd (for_bodies w date pos_E rl rt vsw i ms s)))
           = map fst (bodies_dict s) @ filter (\<lambda>m. coord_of w date m \<noteq> None) ms"
  using assms
proof (induction ms arbitrary: i s)
  case Nil
  then show ?case by simp
next
  case (Cons m ms)
  then have "passes w date (length vsw) i m" and rest: "passes_all w date (length vsw) (Suc i) ms"
    by simp_all
  then show ?case
  proof (cases rule: passes_cases)
    case (no_ephemeris b)
    let ?s = "s\<lparr>bodies_dict := AList.delete m (bodies_dict s),
                 horizons_calls := horizons_calls s @ [body_id b],
                 stdout := stdout s @ ['''', no_ephemeris_message m date]\<rparr>"
    have same: "AList.delete m (bodies_dict s) = bodies_dict s"
      using Cons.prems(3) by (intro AList.delete_id) auto
    have "set ms \<inter> fst ` set (bodies_dict ?s) = {}"
      using Cons.prems(3) same by auto
    from Cons.IH [OF rest _ this] Cons.prems(2) no_ephemeris same show ?thesis
      by (simp add: iteration_no_ephemeris)
  next
    case (coord b p)
    let ?e = "full_entry b p (vsw ! i) (fst (backmapping p date rl (vsw ! i))) rl"
    let ?s = "snd (iteration w date pos_E rl rt vsw i m s)"
    have dict: "bodies_dict ?s = AList.update m ?e (bodies_dict s)"
      using coord by (simp add: iteration_coord)
    have fresh: "m \<notin> set (map fst (bodies_dict s))"
      using Cons.prems(3) by auto
    have keys: "map fst (bodies_dict ?s) = map fst (bodies_dict s) @ [m]"
      using fresh by (simp add: dict AList.update_keys)
    have "fst ` set (bodies_dict ?s) = insert m (fst ` set (bodies_dict s))"
      by (simp add: dict AList.dom_update)
    then have "set ms \<inter> fst ` set (bodies_dict ?s) = {}"
      using Cons.prems(2,3) by auto
    from Cons.IH [OF rest _ this] Cons.prems(2) coord keys show ?thesis
      by (simp add: iteration_coord)
  qed
qed

section \<open>The constructor as a whole\<close>

lemma passes_allI:
  assumes "\<forall>m\<in>set ms. \<exists>b. catalog w m = Some b \<and> (\<forall>e. horizons w (body_id b) date \<noteq> RaisesOther e)"
    and "i + length ms \<le> n"
  shows "passes_all w date n i ms"
  using assms
proof (induction ms arbitrary: i)
  case Nil
  then show ?case by simp
next
  case (Cons m ms)
  then obtain b where "catalog w m = Some b" "\<forall>e. horizons w (body_id b) date \<noteq> RaisesOther e"
    by auto
  moreover have "i < n"
    using Cons.prems(2) by simp
  ultimately have "passes w date n i m"
    by (simp add: passes_def split: lookup.splits)
  moreover have "passes_all w date n (Suc i) ms"
    using Cons by simp
  ultimately show ?case by simp
qed

lemma passes_all_no_ephemeris:
  assumes "\<forall>m\<in>set ms. \<exists>b. catalog w m = Some b \<and> horizons w (body_id b) date = RaisesValueError"
  shows "passes_all w date n i ms"
  using assms by (induction ms arbitrary: i) (auto simp add: passes_def)

lemma length_default_vsw_list:
  "vsw_list = [] \<or> length body_list \<le> length vsw_list \<Longrightarrow>
   length body_list \<le> length (default_vsw_list body_list vsw_list)"
  by (auto simp add: default_vsw_list_def)

lemma np_max_nonempty:
  assumes "xs \<noteq> []"
  shows "np_max xs = Inr (Max (set xs))"
proof (cases xs)
  case Nil
  with assms show ?thesis by simp
next
  case (Cons a list)
  then show ?thesis
    using Max.set_eq_fold [of a list] by simp
qed

lemma init_passes:
  assumes "horizons w (IntId 399) date = Coord pos_E"
    and "passes_all w date (length (default_vsw_list body_list vsw_list)) 0 body_list"
  shows "init w date body_list vsw_list rl rt =
           \<lparr>calls = IntId 399 # map (\<lambda>m. body_id (the (catalog w m))) body_list,
            printed = diagnostics w date body_list,
            result = finish date pos_E rl rt
              (snd (for_bodies w date pos_E rl rt (default_vsw_list body_list vsw_list) 0 body_list
                      empty_state))\<rparr>"
proof -
  obtain e s' where r: "for_bodies w date pos_E rl rt (default_vsw_list body_list vsw_list) 0
      body_list empty_state = (e, s')"
    by (cases "for_bodies w date pos_E rl rt (default_vsw_list body_list vsw_list) 0
      body_list empty_state")
  have "e = None"
    using for_bodies_passes [OF assms(2), of pos_E rl rt empty_state] r by simp
  moreover have "horizons_calls s' = IntId 399 # map (\<lambda>m. body_id (the (catalog w m))) body_list"
    and "stdout s' = diagnostics w date body_list"
    using for_bodies_effects [OF assms(2), of pos_E rl rt empty_state] r
    by (simp_all add: empty_state_def)
  ultimately show ?thesis
    using assms(1) r by (simp add: init_def Let_def)
qed

lemma length_map_filter_coord:
  "length (List.map_filter (coord_of w date) ms)
     = length (filter (\<lambda>m. coord_of w date m \<noteq> None) ms)"
  by (simp add: List.map_filter_def)

text \<open>A run in which no pass leaves the loop, over distinct names of which one at least
  resolves, constructs the object.\<close>

lemma init_constructs:
  assumes earth: "horizons w (IntId 399) date = Coord pos_E"
    and pass: "passes_all w date (length (default_vsw_list body_list vsw_list)) 0 body_list"
    and dist: "distinct body_list"
    and some: "List.map_filter (coord_of w date) body_list \<noteq> []"
  shows "\<exists>c. result (init w date body_list vsw_list rl rt) = Inr c
           \<and> self_body_dict c
               = bodies_dict (snd (for_bodies w date pos_E rl rt
                   (default_vsw_list body_list vsw_list) 0 body_list empty_state))
           \<and> map fst (self_body_dict c) = filter (\<lambda>m. coord_of w date m \<noteq> None) body_list
           \<and> self_max_dist c = Max (set (map radius (List.map_filter (coord_of w date) body_list)))"
proof -
  let ?s = "snd (for_bodies w date pos_E rl rt (default_vsw_list body_list vsw_list) 0 body_list
      empty_state)"
  have d: "body_dist_list ?s = map radius (List.map_filter (coord_of w date) body_list)"
    using for_bodies_dists [OF pass, of pos_E rl rt empty_state] by (simp add: empty_state_def)
  have k: "map fst (bodies_dict ?s) = filter (\<lambda>m. coord_of w date m \<noteq> None) body_list"
    using for_bodies_keys [OF pass dist, of empty_state pos_E rl rt] by (simp add: empty_state_def)
  have l: "length (body_lon_list ?s) = length (List.map_filter (coord_of w date) body_list)"
    "length (body_lat_list ?s) = length (List.map_filter (coord_of w date) body_list)"
    "length (longsep_E_list ?s) = length (List.map_filter (coord_of w date) body_list)"
    "length (latsep_E_list ?s) = length (List.map_filter (coord_of w date) body_list)"
    using for_bodies_lengths [OF pass, of pos_E rl rt empty_state] by (simp_all add: empty_state_def)
  have m: "np_max (body_dist_list ?s)
             = Inr (Max (set (map radius (List.map_filter (coord_of w date) body_list))))"
    using some by (simp add: d np_max_nonempty)
  have kl: "length (map fst (bodies_dict ?s)) = length (List.map_filter (coord_of w date) body_list)"
    by (simp only: k length_map_filter_coord)
  have t: "\<exists>table. DataFrame (map fst (bodies_dict ?s)) (around 0 (body_lon_list ?s))
                  (around 0 (body_lat_list ?s)) (around 2 (body_dist_list ?s))
                  (around 0 (longsep_E_list ?s)) (around 0 (latsep_E_list ?s)) = Inr table"
    using kl l d by (simp add: DataFrame_def around_def)
  then obtain table where "DataFrame (map fst (bodies_dict ?s)) (around 0 (body_lon_list ?s))
                  (around 0 (body_lat_list ?s)) (around 2 (body_dist_list ?s))
                  (around 0 (longsep_E_list ?s)) (around 0 (latsep_E_list ?s)) = Inr table" ..
  then have "finish date pos_E rl rt ?s =
       Inr \<lparr>self_date = date, self_reference_long = rl, self_reference_lat = rt, self_pos_E = pos_E,
            self_body_dict = bodies_dict ?s,
            self_max_dist = Max (set (map radius (List.map_filter (coord_of w date) body_list))),
            self_coord_table = table\<rparr>"
    using m by (simp add: finish_def)
  then show ?thesis
    using k by (simp add: init_passes [OF earth pass])
qed

lemma init_none_resolved:
  assumes earth: "horizons w (IntId 399) date = Coord pos_E"
    and pass: "passes_all w date (length (default_vsw_list body_list vsw_list)) 0 body_list"
    and none: "List.map_filter (coord_of w date) body_list = []"
  shows "result (init w date body_list vsw_list rl rt) = Inl MaxOfEmpty"
proof -
  let ?s = "snd (for_bodies w date pos_E rl rt (default_vsw_list body_list vsw_list) 0 body_list
      empty_state)"
  have "body_dist_list ?s = []"
    using for_bodies_dists [OF pass, of pos_E rl rt empty_state] none by (simp add: empty_state_def)
  then have "finish date pos_E rl rt ?s = Inl MaxOfEmpty"
    by (simp add: finish_def)
  then show ?thesis
    by (simp add: init_passes [OF earth pass])
qed

text \<open>
  C4: when Earth resolves and the lookup of every body of the list fails for want of an
  ephemeris, the constructor raises: \<open>np.max\<close> of the empty list of distances raises
  \<open>ValueError\<close>, since there is no maximum, and nothing catches it.
\<close>

theorem all_unresolvable_raises:
  assumes "horizons w (IntId 399) date = Coord pos_E"
    and "\<forall>m\<in>set body_list. \<exists>b. catalog w m = Some b \<and> horizons w (body_id b) date = RaisesValueError"
  shows "result (init w date body_list vsw_list reference_long reference_lat) = Inl MaxOfEmpty"
proof -
  have pass: "passes_all w date (length (default_vsw_list body_list vsw_list)) 0 body_list"
    using assms(2) by (rule passes_all_no_ephemeris)
  have "\<forall>m\<in>set body_list. coord_of w date m = None"
    using assms(2) by (auto simp add: coord_of_def)
  then have "filter (\<lambda>m. coord_of w date m \<noteq> None) body_list = []"
    by (simp add: filter_empty_conv)
  then have "List.map_filter (coord_of w date) body_list = []"
    by (simp add: List.map_filter_def)
  with assms(1) pass show ?thesis
    by (rule init_none_resolved)
qed

theorem all_unresolvable_raises_witness:
  "horizons example_world (IntId 399) ''2020-03-22 12:30'' = Coord \<lparr>lon = 350, lat = 0, radius = 1\<rparr>
   \<and> (\<exists>b. catalog example_world ''Probe'' = Some b
          \<and> horizons example_world (body_id b) ''2020-03-22 12:30'' = RaisesValueError)
   \<and> result (init example_world ''2020-03-22 12:30'' [''Probe'', ''Probe''] [300] (Some 20) None)
       = Inl MaxOfEmpty"
  using all_unresolvable_raises [of example_world "''2020-03-22 12:30''"
      "\<lparr>lon = 350, lat = 0, radius = 1\<rparr>" "[''Probe'', ''Probe'']" "[300]" "Some 20" None]
  by (simp add: example_world_def)

text \<open>
  C3, as stated, fails in two ways for lists with exactly one failing body and two resolved
  ones. When a resolved name is listed twice, the dictionary has one key for it and the
  lists have two rows, and \<open>pd.DataFrame\<close> raises. When \<open>vsw_list\<close> is not empty and
  shorter than the body list, \<open>vsw_list[i]\<close> raises \<open>IndexError\<close> for the resolved body
  at index 2.
\<close>

theorem one_unresolvable_counterexample:
  "result (init example_world ''2020-03-22 12:30'' [''Mars'', ''Mars'', ''Probe''] [] None None)
     = Inl DataFrameLength
   \<and> result (init example_world ''2020-03-22 12:30'' [''Mars'', ''Probe'', ''Venus''] [300]
        None None)
     = Inl (IndexError 2)"
  by (simp add: init_def default_vsw_list_def iteration_def resolved_body_def example_world_def
      empty_state_def finish_def DataFrame_def around_def Let_def dict_append_def backmapping_def
      tt_def fdiv_def)

lemma diagnostics_append:
  "diagnostics w date (xs @ ys) = diagnostics w date xs @ diagnostics w date ys"
  by (simp add: diagnostics_def)

lemma diagnostics_quiet:
  assumes "\<forall>m\<in>set ns. coord_of w date m \<noteq> None"
  shows "diagnostics w date ns = []"
  using assms by (induction ns) (auto simp add: diagnostics_def)

lemma diagnostics_single:
  assumes "distinct ms" and "x \<in> set ms" and "coord_of w date x = None"
    and "\<forall>m\<in>set ms. m \<noteq> x \<longrightarrow> coord_of w date m \<noteq> None"
  shows "diagnostics w date ms = ['''', no_ephemeris_message x date]"
proof -
  obtain pre post where split: "ms = pre @ x # post"
    using assms(2) by (auto simp add: in_set_conv_decomp)
  then have nx: "x \<notin> set pre" "x \<notin> set post"
    using assms(1) by auto
  have "diagnostics w date pre = []"
    using assms(4) split nx by (intro diagnostics_quiet) auto
  moreover have "diagnostics w date post = []"
    using assms(4) split nx by (intro diagnostics_quiet) auto
  moreover have "diagnostics w date [x] = ['''', no_ephemeris_message x date]"
    using assms(3) by (simp add: diagnostics_def)
  ultimately show ?thesis
    using diagnostics_append [of w date pre "[x] @ post"] diagnostics_append [of w date "[x]" post]
    by (simp add: split)
qed

lemma length_filter_other:
  assumes "distinct ms" and "x \<in> set ms"
  shows "length (filter (\<lambda>m. m \<noteq> x) ms) = length ms - 1"
proof -
  have "filter (\<lambda>m. m \<noteq> x) ms = removeAll x ms"
    by (induction ms) auto
  also have "\<dots> = remove1 x ms"
    using assms(1) by (simp add: distinct_remove1_removeAll)
  finally show ?thesis
    using assms(2) by (simp add: length_remove1)
qed

text \<open>
  C3, amended: for a list of distinct names, all in the catalog, of which at least one
  resolves, with a \<open>vsw_list\<close> that is empty or at least as long, where Earth resolves,
  the lookup of exactly one body \<open>x\<close> fails for want of an ephemeris and the lookups of
  the others succeed, the constructor completes: one diagnostic is printed, for \<open>x\<close>; the
  dictionary holds the other names in their order, one entry less than the list; and
  \<open>max_dist\<close> is the maximum of the radial distances of the others.
\<close>

theorem one_unresolvable_excluded:
  assumes earth: "horizons w (IntId 399) date = Coord pos_E"
    and dist: "distinct body_list" and two: "2 \<le> length body_list"
    and x: "x \<in> set body_list"
    and fails: "catalog w x = Some bx" "horizons w (body_id bx) date = RaisesValueError"
    and others: "\<forall>m\<in>set body_list. m \<noteq> x \<longrightarrow>
        (\<exists>b p. catalog w m = Some b \<and> horizons w (body_id b) date = Coord p)"
    and speeds: "vsw_list = [] \<or> length body_list \<le> length vsw_list"
  shows "\<exists>c. result (init w date body_list vsw_list reference_long reference_lat) = Inr c
           \<and> map fst (self_body_dict c) = filter (\<lambda>m. m \<noteq> x) body_list
           \<and> length (self_body_dict c) = length body_list - 1
           \<and> self_max_dist c
               = Max (set (map (\<lambda>m. radius (the (coord_of w date m)))
                            (filter (\<lambda>m. m \<noteq> x) body_list)))
           \<and> printed (init w date body_list vsw_list reference_long reference_lat)
               = ['''', no_ephemeris_message x date]"
proof -
  have known: "\<forall>m\<in>set body_list. \<exists>b. catalog w m = Some b
      \<and> (\<forall>e. horizons w (body_id b) date \<noteq> RaisesOther e)"
    using fails others by (metis lookup.distinct(3,5) option.inject)
  have "0 + length body_list \<le> length (default_vsw_list body_list vsw_list)"
    using speeds by (simp add: length_default_vsw_list)
  with known have pass: "passes_all w date (length (default_vsw_list body_list vsw_list)) 0 body_list"
    by (rule passes_allI)
  have cx: "coord_of w date x = None"
    using fails by (simp add: coord_of_def)
  have co: "\<forall>m\<in>set body_list. m \<noteq> x \<longrightarrow> coord_of w date m \<noteq> None"
    using others by (auto simp add: coord_of_def)
  have f: "filter (\<lambda>m. coord_of w date m \<noteq> None) body_list = filter (\<lambda>m. m \<noteq> x) body_list"
    using cx co by (intro filter_cong) auto
  have len: "length (filter (\<lambda>m. m \<noteq> x) body_list) = length body_list - 1"
    using dist x by (rule length_filter_other)
  then have "filter (\<lambda>m. m \<noteq> x) body_list \<noteq> []"
    using two by auto
  moreover have mf: "List.map_filter (coord_of w date) body_list
      = map (the \<circ> coord_of w date) (filter (\<lambda>m. m \<noteq> x) body_list)"
    unfolding List.map_filter_def f ..
  ultimately have some: "List.map_filter (coord_of w date) body_list \<noteq> []"
    by simp
  have radii: "map radius (List.map_filter (coord_of w date) body_list)
      = map (\<lambda>m. radius (the (coord_of w date m))) (filter (\<lambda>m. m \<noteq> x) body_list)"
    by (simp add: mf)
  have out: "printed (init w date body_list vsw_list reference_long reference_lat)
      = ['''', no_ephemeris_message x date]"
    using diagnostics_single [OF dist x cx co] by (simp add: init_passes [OF earth pass])
  obtain c where c: "result (init w date body_list vsw_list reference_long reference_lat) = Inr c"
    "map fst (self_body_dict c) = filter (\<lambda>m. coord_of w date m \<noteq> None) body_list"
    "self_max_dist c = Max (set (map radius (List.map_filter (coord_of w date) body_list)))"
    using init_constructs [OF earth pass dist some, of reference_long reference_lat] by blast
  have "length (self_body_dict c) = length body_list - 1"
    using c(2) f len by (metis length_map)
  with c f radii out show ?thesis
    by auto
qed

lemma example_world_earth:
  "horizons example_world (IntId 399) ''2020-03-22 12:30'' = Coord \<lparr>lon = 350, lat = 0, radius = 1\<rparr>"
  by (simp add: example_world_def)

lemma example_world_mars:
  "catalog example_world ''Mars'' = Some \<lparr>body_id = IntId 499, name = ''Mars'', color = ''red''\<rparr>"
  "horizons example_world (IntId 499) ''2020-03-22 12:30'' = Coord \<lparr>lon = 10, lat = 2, radius = 3 / 2\<rparr>"
  by (simp_all add: example_world_def)

lemma example_world_venus:
  "catalog example_world ''Venus'' = Some \<lparr>body_id = IntId 299, name = ''Venus'', color = ''orange''\<rparr>"
  "horizons example_world (IntId 299) ''2020-03-22 12:30'' = Coord \<lparr>lon = 120, lat = - 1, radius = 7 / 10\<rparr>"
  by (simp_all add: example_world_def)

lemma example_world_probe:
  "catalog example_world ''Probe'' = Some \<lparr>body_id = IntId (- 96), name = ''Probe'', color = ''purple''\<rparr>"
  "horizons example_world (IntId (- 96)) ''2020-03-22 12:30'' = RaisesValueError"
  by (simp_all add: example_world_def)

lemma example_world_comet:
  "catalog example_world ''Comet'' = Some \<lparr>body_id = StrId ''67P'', name = ''Comet'', color = ''grey''\<rparr>"
  "horizons example_world (StrId ''67P'') ''2020-03-22 12:30'' = RaisesOther ''ambiguous target''"
  by (simp_all add: example_world_def)

lemma example_world_pluto: "catalog example_world ''Pluto'' = None"
  by (simp add: example_world_def)

theorem one_unresolvable_excluded_witness:
  "horizons example_world (IntId 399) ''2020-03-22 12:30'' = Coord \<lparr>lon = 350, lat = 0, radius = 1\<rparr>
   \<and> distinct [''Mars'', ''Probe'', ''Venus'']
   \<and> horizons example_world (IntId (- 96)) ''2020-03-22 12:30'' = RaisesValueError
   \<and> (\<exists>c. result (init example_world ''2020-03-22 12:30'' [''Mars'', ''Probe'', ''Venus''] []
                (Some 20) None) = Inr c
        \<and> map fst (self_body_dict c) = [''Mars'', ''Venus'']
        \<and> length (self_body_dict c) = 2
        \<and> self_max_dist c = 3 / 2
        \<and> printed (init example_world ''2020-03-22 12:30'' [''Mars'', ''Probe'', ''Venus''] []
                (Some 20) None)
            = ['''', no_ephemeris_message ''Probe'' ''2020-03-22 12:30''])"
proof -
  have m: "Max (set (map (\<lambda>m. radius (the (coord_of example_world ''2020-03-22 12:30'' m)))
              (filter (\<lambda>m. m \<noteq> ''Probe'') [''Mars'', ''Probe'', ''Venus'']))) = 3 / 2"
    by (simp add: coord_of_def example_world_mars example_world_venus)
  have others: "\<forall>m\<in>set [''Mars'', ''Probe'', ''Venus'']. m \<noteq> ''Probe'' \<longrightarrow>
      (\<exists>b p. catalog example_world m = Some b
         \<and> horizons example_world (body_id b) ''2020-03-22 12:30'' = Coord p)"
    by (simp add: example_world_mars example_world_venus)
  have "\<exists>c. result (init example_world ''2020-03-22 12:30'' [''Mars'', ''Probe'', ''Venus''] []
                (Some 20) None) = Inr c
        \<and> map fst (self_body_dict c) = filter (\<lambda>m. m \<noteq> ''Probe'') [''Mars'', ''Probe'', ''Venus'']
        \<and> length (self_body_dict c) = length [''Mars'', ''Probe'', ''Venus''] - 1
        \<and> self_max_dist c
            = Max (set (map (\<lambda>m. radius (the (coord_of example_world ''2020-03-22 12:30'' m)))
                (filter (\<lambda>m. m \<noteq> ''Probe'') [''Mars'', ''Probe'', ''Venus''])))
        \<and> printed (init example_world ''2020-03-22 12:30'' [''Mars'', ''Probe'', ''Venus''] []
                (Some 20) None)
            = ['''', no_ephemeris_message ''Probe'' ''2020-03-22 12:30'']"
    by (rule one_unresolvable_excluded [OF example_world_earth _ _ _ example_world_probe(1) _ others])
      (simp_all add: example_world_probe)
  then show ?thesis
    unfolding m by (auto simp add: example_world_earth example_world_probe numeral_2_eq_2)
qed

section \<open>Failures that leave the loop\<close>

lemma for_bodies_abort:
  assumes "passes_all w date (length vsw) i pre"
    and "fst (iteration w date pos_E rl rt vsw (i + length pre) m
               (snd (for_bodies w date pos_E rl rt vsw i pre s))) = Some e"
  shows "for_bodies w date pos_E rl rt vsw i (pre @ m # post) s
           = (Some e, snd (iteration w date pos_E rl rt vsw (i + length pre) m
                             (snd (for_bodies w date pos_E rl rt vsw i pre s))))"
proof -
  obtain e1 s1 where r: "for_bodies w date pos_E rl rt vsw i pre s = (e1, s1)"
    by (cases "for_bodies w date pos_E rl rt vsw i pre s")
  have "e1 = None"
    using for_bodies_passes [OF assms(1), of pos_E rl rt s] r by simp
  moreover obtain e2 s2 where it: "iteration w date pos_E rl rt vsw (i + length pre) m s1 = (e2, s2)"
    by (cases "iteration w date pos_E rl rt vsw (i + length pre) m s1")
  moreover have "e2 = Some e"
    using assms(2) r it by simp
  ultimately show ?thesis
    using r by (simp add: for_bodies_append)
qed

lemma init_abort:
  assumes earth: "horizons w (IntId 399) date = Coord pos_E"
    and list: "body_list = pre @ m # post"
    and pass: "passes_all w date (length (default_vsw_list body_list vsw_list)) 0 pre"
    and abort: "fst (iteration w date pos_E rl rt (default_vsw_list body_list vsw_list) (length pre) m
               (snd (for_bodies w date pos_E rl rt (default_vsw_list body_list vsw_list) 0 pre
                       empty_state))) = Some e"
  shows "init w date body_list vsw_list rl rt =
           \<lparr>calls = horizons_calls (snd (iteration w date pos_E rl rt
                (default_vsw_list body_list vsw_list) (length pre) m
                (snd (for_bodies w date pos_E rl rt (default_vsw_list body_list vsw_list) 0 pre
                       empty_state)))),
            printed = stdout (snd (iteration w date pos_E rl rt
                (default_vsw_list body_list vsw_list) (length pre) m
                (snd (for_bodies w date pos_E rl rt (default_vsw_list body_list vsw_list) 0 pre
                       empty_state)))),
            result = Inl e\<rparr>"
proof -
  have "for_bodies w date pos_E rl rt (default_vsw_list body_list vsw_list) 0 (pre @ m # post)
          empty_state
        = (Some e, snd (iteration w date pos_E rl rt (default_vsw_list body_list vsw_list)
                          (0 + length pre) m
                          (snd (for_bodies w date pos_E rl rt (default_vsw_list body_list vsw_list)
                                  0 pre empty_state))))"
    using abort by (intro for_bodies_abort [OF pass]) simp
  then show ?thesis
    using earth by (simp add: init_def Let_def list [symmetric])
qed

lemma calls_before:
  assumes "passes_all w date (length vsw) 0 pre"
  shows "horizons_calls (snd (for_bodies w date pos_E rl rt vsw 0 pre empty_state))
           = IntId 399 # map (\<lambda>m. body_id (the (catalog w m))) pre"
  using for_bodies_effects [OF assms, of pos_E rl rt empty_state] by (simp add: empty_state_def)

text \<open>The first pass that leaves the loop ends the run: with the catalog's exception and
  the lookups of the earlier bodies alone, or with the exception of the lookup.\<close>

lemma abort_at_first_failure:
  assumes earth: "horizons w (IntId 399) date = Coord pos_E"
    and list: "body_list = pre @ n # post"
    and before: "\<forall>m\<in>set pre. \<exists>b. catalog w m = Some b
        \<and> (\<forall>e. horizons w (body_id b) date \<noteq> RaisesOther e)"
    and speeds: "vsw_list = [] \<or> length pre \<le> length vsw_list"
  shows "(catalog w n = None \<longrightarrow>
            result (init w date body_list vsw_list reference_long reference_lat)
              = Inl (BodyDoesNotExist n)
            \<and> calls (init w date body_list vsw_list reference_long reference_lat)
              = IntId 399 # map (\<lambda>m. body_id (the (catalog w m))) pre)
       \<and> (\<forall>b e. catalog w n = Some b \<and> horizons w (body_id b) date = RaisesOther e \<longrightarrow>
            result (init w date body_list vsw_list reference_long reference_lat)
              = Inl (EphemerisError e)
            \<and> calls (init w date body_list vsw_list reference_long reference_lat)
              = IntId 399 # map (\<lambda>m. body_id (the (catalog w m))) pre @ [body_id b])"
proof -
  let ?vsw = "default_vsw_list body_list vsw_list"
  let ?s = "snd (for_bodies w date pos_E reference_long reference_lat ?vsw 0 pre empty_state)"
  have "0 + length pre \<le> length ?vsw"
    using speeds list by (auto simp add: default_vsw_list_def)
  with before have pass: "passes_all w date (length ?vsw) 0 pre"
    by (rule passes_allI)
  have c: "horizons_calls ?s = IntId 399 # map (\<lambda>m. body_id (the (catalog w m))) pre"
    using pass by (rule calls_before)
  have unknown: "result (init w date body_list vsw_list reference_long reference_lat)
              = Inl (BodyDoesNotExist n)
            \<and> calls (init w date body_list vsw_list reference_long reference_lat)
              = IntId 399 # map (\<lambda>m. body_id (the (catalog w m))) pre"
    if "catalog w n = None"
  proof -
    have it: "iteration w date pos_E reference_long reference_lat ?vsw (length pre) n ?s
        = (Some (BodyDoesNotExist n), ?s)"
      using that by (rule iteration_unknown)
    then have "fst (iteration w date pos_E reference_long reference_lat ?vsw (length pre) n ?s)
        = Some (BodyDoesNotExist n)"
      by simp
    from init_abort [OF earth list pass this] it c show ?thesis
      by simp
  qed
  have other: "result (init w date body_list vsw_list reference_long reference_lat)
              = Inl (EphemerisError e)
            \<and> calls (init w date body_list vsw_list reference_long reference_lat)
              = IntId 399 # map (\<lambda>m. body_id (the (catalog w m))) pre @ [body_id b]"
    if "catalog w n = Some b" "horizons w (body_id b) date = RaisesOther e" for b e
  proof -
    have it: "fst (iteration w date pos_E reference_long reference_lat ?vsw (length pre) n ?s)
          = Some (EphemerisError e)"
      "horizons_calls (snd (iteration w date pos_E reference_long reference_lat ?vsw (length pre) n ?s))
          = horizons_calls ?s @ [body_id b]"
      using iteration_other [OF that, of pos_E reference_long reference_lat ?vsw "length pre" ?s]
      by simp_all
    from init_abort [OF earth list pass it(1)] it(2) c show ?thesis
      by simp
  qed
  from unknown other show ?thesis
    by blast
qed

lemma iteration_unrecovered:
  assumes "catalog w m = None
      \<or> (\<exists>b e. catalog w m = Some b \<and> horizons w (body_id b) date = RaisesOther e)"
  shows "fst (iteration w date pos_E rl rt vsw i m s) \<noteq> None"
  using assms iteration_unknown [of w m date pos_E rl rt vsw i s]
    iteration_other [of w m _ date _ pos_E rl rt vsw i s]
  by auto

lemma for_bodies_unrecovered:
  assumes "\<exists>m\<in>set ms. catalog w m = None
      \<or> (\<exists>b e. catalog w m = Some b \<and> horizons w (body_id b) date = RaisesOther e)"
  shows "fst (for_bodies w date pos_E rl rt vsw i ms s) \<noteq> None"
  using assms
proof (induction ms arbitrary: i s)
  case Nil
  then show ?case by simp
next
  case (Cons m ms)
  obtain e s1 where it: "iteration w date pos_E rl rt vsw i m s = (e, s1)"
    by (cases "iteration w date pos_E rl rt vsw i m s")
  show ?case
  proof (cases e)
    case (Some a)
    then show ?thesis
      using it by simp
  next
    case None
    have "\<not> (catalog w m = None
      \<or> (\<exists>b e. catalog w m = Some b \<and> horizons w (body_id b) date = RaisesOther e))"
    proof
      assume "catalog w m = None
        \<or> (\<exists>b e. catalog w m = Some b \<and> horizons w (body_id b) date = RaisesOther e)"
      from iteration_unrecovered [OF this, of pos_E rl rt vsw i s] it None show False
        by simp
    qed
    then have "\<exists>m\<in>set ms. catalog w m = None
      \<or> (\<exists>b e. catalog w m = Some b \<and> horizons w (body_id b) date = RaisesOther e)"
      using Cons.prems by auto
    from Cons.IH [OF this] show ?thesis
      using it None by simp
  qed
qed

lemma init_unrecovered:
  assumes "\<exists>m\<in>set body_list. catalog w m = None
      \<or> (\<exists>b e. catalog w m = Some b \<and> horizons w (body_id b) date = RaisesOther e)"
  shows "isl (result (init w date body_list vsw_list rl rt))"
proof (cases "horizons w (IntId 399) date")
  case (Coord pos_E)
  obtain e s where r: "for_bodies w date pos_E rl rt (default_vsw_list body_list vsw_list) 0
      body_list empty_state = (e, s)"
    by (cases "for_bodies w date pos_E rl rt (default_vsw_list body_list vsw_list) 0
      body_list empty_state")
  then have "e \<noteq> None"
    using for_bodies_unrecovered [OF assms, of pos_E rl rt "default_vsw_list body_list vsw_list" 0
        empty_state] by simp
  then show ?thesis
    using Coord r by (auto simp add: init_def Let_def)
next
  case RaisesValueError
  then show ?thesis by (simp add: init_def)
next
  case (RaisesOther x)
  then show ?thesis by (simp add: init_def)
qed

text \<open>
  C9: only a \<open>ValueError\<close> of the ephemeris lookup is recovered per body. A name that the
  catalog does not know, or a lookup that raises anything else, anywhere in the list, means
  that no object is constructed. When Earth resolves and the passes for the bodies before
  \<open>n\<close> do not leave the loop, a name \<open>n\<close> that the catalog does not know aborts the
  construction with the catalog's exception, with no lookup made for \<open>n\<close> or for a later
  body; and an exception of the lookup for \<open>n\<close> other than \<open>ValueError\<close> aborts it with
  that exception, the lookup for \<open>n\<close> being the last one made.
\<close>

theorem unrecovered_failures_abort:
  "((\<exists>m\<in>set body_list. catalog w m = None
        \<or> (\<exists>b e. catalog w m = Some b \<and> horizons w (body_id b) date = RaisesOther e)) \<longrightarrow>
      isl (result (init w date body_list vsw_list reference_long reference_lat)))
   \<and> (horizons w (IntId 399) date = Coord pos_E \<and> body_list = pre @ n # post
        \<and> (\<forall>m\<in>set pre. \<exists>b. catalog w m = Some b
              \<and> (\<forall>e. horizons w (body_id b) date \<noteq> RaisesOther e))
        \<and> (vsw_list = [] \<or> length pre \<le> length vsw_list) \<longrightarrow>
        (catalog w n = None \<longrightarrow>
            result (init w date body_list vsw_list reference_long reference_lat)
              = Inl (BodyDoesNotExist n)
            \<and> calls (init w date body_list vsw_list reference_long reference_lat)
              = IntId 399 # map (\<lambda>m. body_id (the (catalog w m))) pre)
        \<and> (\<forall>b e. catalog w n = Some b \<and> horizons w (body_id b) date = RaisesOther e \<longrightarrow>
            result (init w date body_list vsw_list reference_long reference_lat)
              = Inl (EphemerisError e)
            \<and> calls (init w date body_list vsw_list reference_long reference_lat)
              = IntId 399 # map (\<lambda>m. body_id (the (catalog w m))) pre @ [body_id b]))"
proof (rule conjI; rule impI)
  assume "\<exists>m\<in>set body_list. catalog w m = None
        \<or> (\<exists>b e. catalog w m = Some b \<and> horizons w (body_id b) date = RaisesOther e)"
  then show "isl (result (init w date body_list vsw_list reference_long reference_lat))"
    by (rule init_unrecovered)
next
  assume a: "horizons w (IntId 399) date = Coord pos_E \<and> body_list = pre @ n # post
        \<and> (\<forall>m\<in>set pre. \<exists>b. catalog w m = Some b
              \<and> (\<forall>e. horizons w (body_id b) date \<noteq> RaisesOther e))
        \<and> (vsw_list = [] \<or> length pre \<le> length vsw_list)"
  then have earth: "horizons w (IntId 399) date = Coord pos_E"
    and list: "body_list = pre @ n # post"
    and before: "\<forall>m\<in>set pre. \<exists>b. catalog w m = Some b
              \<and> (\<forall>e. horizons w (body_id b) date \<noteq> RaisesOther e)"
    and speeds: "vsw_list = [] \<or> length pre \<le> length vsw_list"
    by blast+
  show "(catalog w n = None \<longrightarrow>
            result (init w date body_list vsw_list reference_long reference_lat)
              = Inl (BodyDoesNotExist n)
            \<and> calls (init w date body_list vsw_list reference_long reference_lat)
              = IntId 399 # map (\<lambda>m. body_id (the (catalog w m))) pre)
        \<and> (\<forall>b e. catalog w n = Some b \<and> horizons w (body_id b) date = RaisesOther e \<longrightarrow>
            result (init w date body_list vsw_list reference_long reference_lat)
              = Inl (EphemerisError e)
            \<and> calls (init w date body_list vsw_list reference_long reference_lat)
              = IntId 399 # map (\<lambda>m. body_id (the (catalog w m))) pre @ [body_id b])"
    using abort_at_first_failure [OF earth list before speeds] by blast
qed

theorem unrecovered_failures_abort_witness:
  "catalog example_world ''Pluto'' = None
   \<and> isl (result (init example_world ''2020-03-22 12:30'' [''Mars'', ''Pluto'', ''Venus''] []
        None None))
   \<and> result (init example_world ''2020-03-22 12:30'' [''Mars'', ''Pluto'', ''Venus''] [] None None)
       = Inl (BodyDoesNotExist ''Pluto'')
   \<and> calls (init example_world ''2020-03-22 12:30'' [''Mars'', ''Pluto'', ''Venus''] [] None None)
       = [IntId 399, IntId 499]
   \<and> horizons example_world (StrId ''67P'') ''2020-03-22 12:30'' = RaisesOther ''ambiguous target''
   \<and> result (init example_world ''2020-03-22 12:30'' [''Mars'', ''Comet'', ''Venus''] [] None None)
       = Inl (EphemerisError ''ambiguous target'')
   \<and> calls (init example_world ''2020-03-22 12:30'' [''Mars'', ''Comet'', ''Venus''] [] None None)
       = [IntId 399, IntId 499, StrId ''67P'']"
proof -
  note pluto = unrecovered_failures_abort [where w = example_world
      and date = "''2020-03-22 12:30''" and body_list = "[''Mars'', ''Pluto'', ''Venus'']"
      and vsw_list = "[]" and reference_long = None and reference_lat = None
      and pos_E = "\<lparr>lon = 350, lat = 0, radius = 1\<rparr>"
      and pre = "[''Mars'']" and n = "''Pluto''" and post = "[''Venus'']"]
  note comet = unrecovered_failures_abort [where w = example_world
      and date = "''2020-03-22 12:30''" and body_list = "[''Mars'', ''Comet'', ''Venus'']"
      and vsw_list = "[]" and reference_long = None and reference_lat = None
      and pos_E = "\<lparr>lon = 350, lat = 0, radius = 1\<rparr>"
      and pre = "[''Mars'']" and n = "''Comet''" and post = "[''Venus'']"]
  show ?thesis
    using pluto comet
    by (simp add: example_world_earth example_world_pluto example_world_comet example_world_mars)
qed

section \<open>Wind speeds and parameters\<close>

lemma iteration_passes:
  assumes "passes w date (length vsw) i m"
  shows "fst (iteration w date pos_E rl rt vsw i m s) = None"
  using assms by (cases rule: passes_cases) (simp_all add: iteration_no_ephemeris iteration_coord)

lemma for_bodies_Cons_passes:
  assumes "passes w date (length vsw) i m"
  shows "for_bodies w date pos_E rl rt vsw i (m # ms) s
           = for_bodies w date pos_E rl rt vsw (Suc i) ms (snd (iteration w date pos_E rl rt vsw i m s))"
  using iteration_passes [OF assms, of pos_E rl rt s]
  by (cases "iteration w date pos_E rl rt vsw i m s") simp

lemma iteration_frame:
  assumes "passes w date (length vsw) i m" and "k \<noteq> m"
  shows "map_of (bodies_dict (snd (iteration w date pos_E rl rt vsw i m s))) k
           = map_of (bodies_dict s) k"
  using assms(1)
proof (cases rule: passes_cases)
  case (no_ephemeris b)
  then show ?thesis
    using assms(2) by (simp add: iteration_no_ephemeris)
next
  case (coord b p)
  then show ?thesis
    using assms(2) by (simp add: iteration_coord AList.update_conv')
qed

lemma for_bodies_frame:
  assumes "passes_all w date (length vsw) i ms" and "k \<notin> set ms"
  shows "map_of (bodies_dict (snd (for_bodies w date pos_E rl rt vsw i ms s))) k
           = map_of (bodies_dict s) k"
  using assms
proof (induction ms arbitrary: i s)
  case Nil
  then show ?case by simp
next
  case (Cons m ms)
  then have p: "passes w date (length vsw) i m" and rest: "passes_all w date (length vsw) (Suc i) ms"
    and k: "k \<noteq> m" "k \<notin> set ms"
    by auto
  show ?case
    using Cons.IH [OF rest k(2)] iteration_frame [OF p k(1)]
    by (simp add: for_bodies_Cons_passes [OF p] del: for_bodies.simps)
qed

lemma iteration_entry:
  assumes "passes w date (length vsw) i m" and "coord_of w date m = Some p"
  shows "\<exists>e. map_of (bodies_dict (snd (iteration w date pos_E rl rt vsw i m s))) m = Some e
           \<and> e ! 3 = PosItem p \<and> e ! 4 = NumItem (Some (vsw ! i))"
  using assms(1)
proof (cases rule: passes_cases)
  case (no_ephemeris b)
  then show ?thesis
    using assms(2) by simp
next
  case (coord b q)
  then show ?thesis
    using assms(2) by (simp add: iteration_coord AList.update_conv' full_entry_def)
qed

lemma for_bodies_entry:
  assumes "passes_all w date (length vsw) i ms" and "distinct ms" and "k < length ms"
    and "coord_of w date (ms ! k) = Some p"
  shows "\<exists>e. map_of (bodies_dict (snd (for_bodies w date pos_E rl rt vsw i ms s))) (ms ! k) = Some e
           \<and> e ! 3 = PosItem p \<and> e ! 4 = NumItem (Some (vsw ! (i + k)))"
  using assms
proof (induction ms arbitrary: i s k)
  case Nil
  then show ?case by simp
next
  case (Cons m ms)
  then have p: "passes w date (length vsw) i m" and rest: "passes_all w date (length vsw) (Suc i) ms"
    and d: "m \<notin> set ms" "distinct ms"
    by auto
  show ?case
  proof (cases k)
    case 0
    then have "coord_of w date m = Some p"
      using Cons.prems(4) by simp
    from iteration_entry [OF p this, of pos_E rl rt s] for_bodies_frame [OF rest d(1)] 0
    show ?thesis
      by (simp add: for_bodies_Cons_passes [OF p] del: for_bodies.simps)
  next
    case (Suc j)
    then have "j < length ms" "coord_of w date (ms ! j) = Some p"
      using Cons.prems(3,4) by simp_all
    from Cons.IH [OF rest d(2) this] Suc show ?thesis
      by (simp add: for_bodies_Cons_passes [OF p] del: for_bodies.simps)
  qed
qed

lemma coord_of_resolved:
  assumes "catalog w m = Some b" and "horizons w (body_id b) date = Coord p"
  shows "coord_of w date m = Some p"
  using assms by (simp add: coord_of_def)

text \<open>When all names are distinct and resolve and no pass leaves the loop, the entry of the
  body at index \<open>k\<close> holds the wind speed at index \<open>k\<close>.\<close>

lemma init_entries:
  assumes earth: "horizons w (IntId 399) date = Coord pos_E"
    and pass: "passes_all w date (length (default_vsw_list body_list vsw_list)) 0 body_list"
    and dist: "distinct body_list" and ne: "body_list \<noteq> []"
    and all: "\<forall>m\<in>set body_list. coord_of w date m \<noteq> None"
  shows "\<exists>c. result (init w date body_list vsw_list rl rt) = Inr c
           \<and> (\<forall>k<length body_list. \<exists>e. map_of (self_body_dict c) (body_list ! k) = Some e
                 \<and> e ! 4 = NumItem (Some (default_vsw_list body_list vsw_list ! k)))"
proof -
  have "filter (\<lambda>m. coord_of w date m \<noteq> None) body_list = body_list"
    using all by (simp add: filter_id_conv)
  then have "List.map_filter (coord_of w date) body_list = map (the \<circ> coord_of w date) body_list"
    by (simp add: List.map_filter_def)
  then have some: "List.map_filter (coord_of w date) body_list \<noteq> []"
    using ne by simp
  obtain c where c: "result (init w date body_list vsw_list rl rt) = Inr c"
    "self_body_dict c = bodies_dict (snd (for_bodies w date pos_E rl rt
         (default_vsw_list body_list vsw_list) 0 body_list empty_state))"
    using init_constructs [OF earth pass dist some, of rl rt] by blast
  have "\<exists>e. map_of (self_body_dict c) (body_list ! k) = Some e
           \<and> e ! 4 = NumItem (Some (default_vsw_list body_list vsw_list ! k))"
    if k: "k < length body_list" for k
  proof -
    obtain p where "coord_of w date (body_list ! k) = Some p"
      using all k by fastforce
    from for_bodies_entry [OF pass dist k this, of pos_E rl rt empty_state] show ?thesis
      by (auto simp add: c(2))
  qed
  with c(1) show ?thesis
    by blast
qed

lemma passes_all_resolved:
  assumes "\<forall>m\<in>set ms. \<exists>b p. catalog w m = Some b \<and> horizons w (body_id b) date = Coord p"
    and "i + length ms \<le> n"
  shows "passes_all w date n i ms"
proof (rule passes_allI)
  show "\<forall>m\<in>set ms. \<exists>b. catalog w m = Some b \<and> (\<forall>e. horizons w (body_id b) date \<noteq> RaisesOther e)"
    using assms(1) by (metis lookup.distinct(3))
  show "i + length ms \<le> n"
    by (rule assms(2))
qed

text \<open>
  C5, as stated, fails for a \<open>vsw_list\<close> that is not empty and shorter than the body list:
  with two resolvable bodies and one wind speed, \<open>vsw_list[1]\<close> raises \<open>IndexError\<close> and
  the construction is aborted.
\<close>

theorem short_vsw_list_counterexample:
  "result (init example_world ''2020-03-22 12:30'' [''Mars'', ''Venus''] [300] None None)
     = Inl (IndexError 1)"
  by (simp add: init_def default_vsw_list_def iteration_def resolved_body_def example_world_def
      empty_state_def Let_def split: prod.splits)

text \<open>
  C5, amended: when Earth and every body of the list resolve, an empty \<open>vsw_list\<close> gives
  every body the wind speed 400 (for a non-empty list of distinct names the construction
  completes and every entry of the dictionary holds 400); a \<open>vsw_list\<close> that is not empty
  and is shorter than the body list makes the construction raise \<open>IndexError\<close> at the
  first body without a paired speed.
\<close>

theorem wind_speed_pairing:
  assumes earth: "horizons w (IntId 399) date = Coord pos_E"
    and resolve: "\<forall>m\<in>set body_list. \<exists>b p. catalog w m = Some b
        \<and> horizons w (body_id b) date = Coord p"
  shows "(vsw_list = [] \<and> distinct body_list \<and> body_list \<noteq> [] \<longrightarrow>
            (\<exists>c. result (init w date body_list vsw_list reference_long reference_lat) = Inr c
               \<and> (\<forall>m\<in>set body_list. \<exists>e. map_of (self_body_dict c) m = Some e
                     \<and> e ! 4 = NumItem (Some 400))))
       \<and> (vsw_list \<noteq> [] \<and> length vsw_list < length body_list \<longrightarrow>
            result (init w date body_list vsw_list reference_long reference_lat)
              = Inl (IndexError (length vsw_list)))"
proof (intro conjI impI)
  assume a: "vsw_list = [] \<and> distinct body_list \<and> body_list \<noteq> []"
  then have v: "default_vsw_list body_list vsw_list = replicate (length body_list) 400"
    by (simp add: default_vsw_list_def)
  have pass: "passes_all w date (length (default_vsw_list body_list vsw_list)) 0 body_list"
    using resolve by (rule passes_all_resolved) (simp add: v)
  have all: "\<forall>m\<in>set body_list. coord_of w date m \<noteq> None"
    using resolve by (auto simp add: coord_of_def)
  obtain c where c: "result (init w date body_list vsw_list reference_long reference_lat) = Inr c"
    "\<forall>k<length body_list. \<exists>e. map_of (self_body_dict c) (body_list ! k) = Some e
        \<and> e ! 4 = NumItem (Some (default_vsw_list body_list vsw_list ! k))"
    using init_entries [OF earth pass _ _ all, of reference_long reference_lat] a by blast
  have "\<exists>e. map_of (self_body_dict c) m = Some e \<and> e ! 4 = NumItem (Some 400)"
    if mem: "m \<in> set body_list" for m
  proof -
    obtain k where "k < length body_list" "body_list ! k = m"
      using mem by (auto simp add: in_set_conv_nth)
    with c(2) show ?thesis
      by (auto simp add: v)
  qed
  with c(1) show "\<exists>c. result (init w date body_list vsw_list reference_long reference_lat) = Inr c
      \<and> (\<forall>m\<in>set body_list. \<exists>e. map_of (self_body_dict c) m = Some e \<and> e ! 4 = NumItem (Some 400))"
    by blast
next
  assume a: "vsw_list \<noteq> [] \<and> length vsw_list < length body_list"
  let ?n = "length vsw_list"
  let ?pre = "take ?n body_list"
  let ?vsw = "default_vsw_list body_list vsw_list"
  have v: "?vsw = vsw_list"
    using a by (simp add: default_vsw_list_def)
  have list: "body_list = ?pre @ body_list ! ?n # drop (Suc ?n) body_list"
    using a by (simp add: id_take_nth_drop)
  have len: "length ?pre = ?n"
    using a by simp
  have "\<forall>m\<in>set ?pre. \<exists>b p. catalog w m = Some b \<and> horizons w (body_id b) date = Coord p"
    using resolve by (meson in_set_takeD)
  then have pass: "passes_all w date (length ?vsw) 0 ?pre"
    by (rule passes_all_resolved) (simp add: v)
  obtain b p where bp: "catalog w (body_list ! ?n) = Some b" "horizons w (body_id b) date = Coord p"
    using resolve a by (meson nth_mem)
  have "fst (iteration w date pos_E reference_long reference_lat ?vsw ?n (body_list ! ?n)
               (snd (for_bodies w date pos_E reference_long reference_lat ?vsw 0 ?pre empty_state)))
          = Some (IndexError ?n)"
    using iteration_index [OF bp, of ?vsw ?n] by (simp add: v)
  then have "fst (iteration w date pos_E reference_long reference_lat ?vsw (length ?pre)
               (body_list ! ?n)
               (snd (for_bodies w date pos_E reference_long reference_lat ?vsw 0 ?pre empty_state)))
          = Some (IndexError ?n)"
    by (simp only: len)
  from init_abort [OF earth list pass this]
  show "result (init w date body_list vsw_list reference_long reference_lat)
      = Inl (IndexError (length vsw_list))"
    by simp
qed

lemma example_world_resolved:
  "\<forall>m\<in>set [''Mars'', ''Venus'']. \<exists>b p. catalog example_world m = Some b
      \<and> horizons example_world (body_id b) ''2020-03-22 12:30'' = Coord p"
  "\<forall>m\<in>set [''Mars'']. \<exists>b p. catalog example_world m = Some b
      \<and> horizons example_world (body_id b) ''2020-03-22 12:30'' = Coord p"
  by (simp_all add: example_world_mars example_world_venus)

theorem wind_speed_pairing_witness:
  "horizons example_world (IntId 399) ''2020-03-22 12:30'' = Coord \<lparr>lon = 350, lat = 0, radius = 1\<rparr>
   \<and> (\<exists>c. result (init example_world ''2020-03-22 12:30'' [''Mars'', ''Venus''] [] None None) = Inr c
         \<and> (\<exists>e. map_of (self_body_dict c) ''Mars'' = Some e \<and> e ! 4 = NumItem (Some 400))
         \<and> (\<exists>e. map_of (self_body_dict c) ''Venus'' = Some e \<and> e ! 4 = NumItem (Some 400)))
   \<and> result (init example_world ''2020-03-22 12:30'' [''Mars'', ''Venus''] [300, 350, 400] None None)
       \<noteq> Inl (IndexError 3)
   \<and> result (init example_world ''2020-03-22 12:30'' [''Mars'', ''Venus''] [300] None None)
       = Inl (IndexError (length [300 :: real]))"
proof -
  note t = wind_speed_pairing [OF example_world_earth example_world_resolved(1), of _ None None]
  have "\<exists>c. result (init example_world ''2020-03-22 12:30'' [''Mars'', ''Venus''] [] None None) = Inr c
         \<and> (\<forall>m\<in>set [''Mars'', ''Venus'']. \<exists>e. map_of (self_body_dict c) m = Some e
               \<and> e ! 4 = NumItem (Some 400))"
    using t [of "[]"] by simp
  moreover have "result (init example_world ''2020-03-22 12:30'' [''Mars'', ''Venus''] [300] None None)
       = Inl (IndexError (length [300 :: real]))"
    using t [of "[300]"] by simp
  moreover have "result (init example_world ''2020-03-22 12:30'' [''Mars'', ''Venus''] [300, 350, 400]
       None None) \<noteq> Inl (IndexError 3)"
    by (simp add: init_def default_vsw_list_def iteration_def resolved_body_def example_world_def
      empty_state_def finish_def DataFrame_def around_def Let_def split: prod.splits)
  ultimately show ?thesis
    using example_world_earth by auto
qed

lemma iteration_calls:
  "\<exists>cs. horizons_calls (snd (iteration w date pos_E rl rt vsw i m s)) = horizons_calls s @ cs"
  by (auto simp add: iteration_def resolved_body_def Let_def
      split: option.splits lookup.splits prod.splits)

lemma for_bodies_calls:
  "\<exists>cs. horizons_calls (snd (for_bodies w date pos_E rl rt vsw i ms s)) = horizons_calls s @ cs"
proof (induction ms arbitrary: i s)
  case Nil
  then show ?case by simp
next
  case (Cons m ms)
  obtain e s1 where it: "iteration w date pos_E rl rt vsw i m s = (e, s1)"
    by (cases "iteration w date pos_E rl rt vsw i m s")
  obtain cs where cs: "horizons_calls s1 = horizons_calls s @ cs"
    using iteration_calls [of w date pos_E rl rt vsw i m s] it by auto
  show ?case
  proof (cases e)
    case None
    obtain cs' where "horizons_calls (snd (for_bodies w date pos_E rl rt vsw (Suc i) ms s1))
        = horizons_calls s1 @ cs'"
      using Cons.IH by blast
    then show ?thesis
      using it None cs by simp
  next
    case (Some a)
    then show ?thesis
      using it cs by simp
  qed
qed

lemma init_calls:
  "\<exists>cs. calls (init w date body_list vsw_list rl rt) = IntId 399 # cs"
proof (cases "horizons w (IntId 399) date")
  case (Coord pos_E)
  obtain e s where r: "for_bodies w date pos_E rl rt (default_vsw_list body_list vsw_list) 0
      body_list empty_state = (e, s)"
    by (cases "for_bodies w date pos_E rl rt (default_vsw_list body_list vsw_list) 0
      body_list empty_state")
  obtain cs where "horizons_calls s = horizons_calls empty_state @ cs"
    using for_bodies_calls [of w date pos_E rl rt "default_vsw_list body_list vsw_list" 0
        body_list empty_state] r by auto
  then have "horizons_calls s = IntId 399 # cs"
    by (simp add: empty_state_def)
  then show ?thesis
    using Coord r by (cases e) (simp_all add: init_def Let_def)
next
  case RaisesValueError
  then show ?thesis by (simp add: init_def)
next
  case (RaisesOther x)
  then show ?thesis by (simp add: init_def)
qed

text \<open>
  C7, as stated, fails: with a wind speed of -400 nothing is rejected; Earth and the body
  are looked up and the construction completes.
\<close>

theorem parameters_counterexample:
  "calls (init example_world ''2020-03-22 12:30'' [''Mars''] [- 400] None None)
     = [IntId 399, IntId 499]
   \<and> \<not> isl (result (init example_world ''2020-03-22 12:30'' [''Mars''] [- 400] None None))"
  by (simp add: init_def default_vsw_list_def iteration_def resolved_body_def example_world_def
      empty_state_def finish_def DataFrame_def around_def Let_def dict_append_def backmapping_def
      tt_def fdiv_def)

text \<open>
  C7, amended: the constructor checks no parameter itself. Its first action is always the
  lookup of Earth, to which the date is passed as it is: a date for which that lookup
  raises \<open>ValueError\<close> ends the run with this exception, after the lookup and not before.
  With an empty body list the constructor raises after the lookup of Earth, at the maximum
  of no distances. When Earth and all bodies of a non-empty list of distinct names resolve
  and \<open>vsw_list\<close> is at least as long as the list, the construction completes whatever the
  wind speeds are, and the entry of each body holds the speed given for it. And
  \<open>backmapping\<close> with a wind speed of 0 divides unguarded and returns non-finite values.
\<close>

theorem parameters_not_checked:
  "(\<exists>cs. calls (init w date body_list vsw_list reference_long reference_lat) = IntId 399 # cs)
   \<and> (horizons w (IntId 399) date = RaisesValueError \<longrightarrow>
        init w date body_list vsw_list reference_long reference_lat
          = \<lparr>calls = [IntId 399], printed = [], result = Inl EphemerisValueError\<rparr>)
   \<and> (horizons w (IntId 399) date = Coord pos_E \<longrightarrow>
        init w date [] vsw_list reference_long reference_lat
          = \<lparr>calls = [IntId 399], printed = [], result = Inl MaxOfEmpty\<rparr>)
   \<and> (horizons w (IntId 399) date = Coord pos_E \<and> body_list \<noteq> [] \<and> distinct body_list
        \<and> (\<forall>m\<in>set body_list. \<exists>b p. catalog w m = Some b \<and> horizons w (body_id b) date = Coord p)
        \<and> length body_list \<le> length vsw_list \<longrightarrow>
        (\<exists>c. result (init w date body_list vsw_list reference_long reference_lat) = Inr c
           \<and> (\<forall>k<length body_list. \<exists>e. map_of (self_body_dict c) (body_list ! k) = Some e
                 \<and> e ! 4 = NumItem (Some (vsw_list ! k)))))
   \<and> backmapping pos date reference_long 0 = (None, None)"
proof (intro conjI impI)
  show "\<exists>cs. calls (init w date body_list vsw_list reference_long reference_lat) = IntId 399 # cs"
    by (rule init_calls)
next
  assume "horizons w (IntId 399) date = RaisesValueError"
  then show "init w date body_list vsw_list reference_long reference_lat
          = \<lparr>calls = [IntId 399], printed = [], result = Inl EphemerisValueError\<rparr>"
    by (simp add: init_def)
next
  assume "horizons w (IntId 399) date = Coord pos_E"
  then show "init w date [] vsw_list reference_long reference_lat
          = \<lparr>calls = [IntId 399], printed = [], result = Inl MaxOfEmpty\<rparr>"
    by (simp add: init_def empty_state_def finish_def Let_def)
next
  assume a: "horizons w (IntId 399) date = Coord pos_E \<and> body_list \<noteq> [] \<and> distinct body_list
        \<and> (\<forall>m\<in>set body_list. \<exists>b p. catalog w m = Some b \<and> horizons w (body_id b) date = Coord p)
        \<and> length body_list \<le> length vsw_list"
  then have v: "default_vsw_list body_list vsw_list = vsw_list"
    by (auto simp add: default_vsw_list_def)
  have resolve: "\<forall>m\<in>set body_list. \<exists>b p. catalog w m = Some b \<and> horizons w (body_id b) date = Coord p"
    using a by blast
  then have pass: "passes_all w date (length (default_vsw_list body_list vsw_list)) 0 body_list"
    by (rule passes_all_resolved) (use a in \<open>simp add: v\<close>)
  have all: "\<forall>m\<in>set body_list. coord_of w date m \<noteq> None"
    using resolve by (auto simp add: coord_of_def)
  from init_entries [OF _ pass _ _ all, of pos_E reference_long reference_lat] a
  show "\<exists>c. result (init w date body_list vsw_list reference_long reference_lat) = Inr c
           \<and> (\<forall>k<length body_list. \<exists>e. map_of (self_body_dict c) (body_list ! k) = Some e
                 \<and> e ! 4 = NumItem (Some (vsw_list ! k)))"
    by (simp add: v)
next
  show "backmapping pos date reference_long 0 = (None, None)"
    by (simp add: backmapping_def tt_def fdiv_def Let_def split: option.splits)
qed

theorem parameters_not_checked_witness:
  "horizons example_world (IntId 399) ''2020-03-22 12:30''
     = Coord \<lparr>lon = 350, lat = 0, radius = 1\<rparr>
   \<and> (\<exists>cs. calls (init example_world ''2020-03-22 12:30'' [''Mars''] [0] None None)
        = IntId 399 # cs)
   \<and> init example_world ''2020-03-22 12:30'' [] [0] None None
       = \<lparr>calls = [IntId 399], printed = [], result = Inl MaxOfEmpty\<rparr>
   \<and> (\<exists>c. result (init example_world ''2020-03-22 12:30'' [''Mars''] [0] None None) = Inr c
         \<and> (\<exists>e. map_of (self_body_dict c) ''Mars'' = Some e \<and> e ! 4 = NumItem (Some 0)))
   \<and> horizons example_world (IntId 399) ''not a date'' = RaisesValueError
   \<and> init example_world ''not a date'' [''Mars''] [0] None None
       = \<lparr>calls = [IntId 399], printed = [], result = Inl EphemerisValueError\<rparr>"
proof -
  have r: "\<forall>m\<in>set [''Mars'']. \<exists>b p. catalog example_world m = Some b
      \<and> horizons example_world (body_id b) ''2020-03-22 12:30'' = Coord p"
    by (simp add: example_world_mars)
  have n: "horizons example_world (IntId 399) ''not a date'' = RaisesValueError"
    by (simp add: example_world_def)
  note t = parameters_not_checked [of example_world "''2020-03-22 12:30''" "[''Mars'']" "[0]"
      None None "\<lparr>lon = 350, lat = 0, radius = 1\<rparr>" "\<lparr>lon = 350, lat = 0, radius = 1\<rparr>"]
  note u = parameters_not_checked [of example_world "''not a date''" "[''Mars'']" "[0]"
      None None "\<lparr>lon = 350, lat = 0, radius = 1\<rparr>" "\<lparr>lon = 350, lat = 0, radius = 1\<rparr>"]
  show ?thesis
    using t u r n example_world_earth by simp
qed

end
